theory Spec2Isabelle
  imports Complex_Main "HOL-Library.Product_Lexorder" "HOL-Library.List_Lexorder"
    "HOL-Library.AList" "HOL-Library.Sublist"
    "HOL-Library.Char_ord"
begin

section \<open>Transaction store (utils/data_prep.py)\<close>

text \<open>
  A row of the transaction log. \<open>Date\<close> is the calendar date as a day number (pandas
  orders timestamps chronologically; only equality and order of dates are used).
\<close>

record transaction =
  CustomerID :: int
  Product :: string
  Date :: int

type_synonym dataset = "transaction list"

text \<open>
  \<open>df.groupby(['CustomerID', 'Date'])['Product'].apply(list).tolist()\<close>: pandas sorts the
  groups by key and keeps the rows of a group in their order in the frame.
\<close>

definition group_keys :: "dataset \<Rightarrow> (int \<times> int) list" where
  "group_keys df = sort (remdups (map (\<lambda>r. (CustomerID r, Date r)) df))"

definition groupby_baskets :: "dataset \<Rightarrow> string list list" where
  "groupby_baskets df =
     map (\<lambda>k. map Product (filter (\<lambda>r. (CustomerID r, Date r) = k) df)) (group_keys df)"

text \<open>\<open>DataPreprocessor.get_basket_data\<close>.\<close>

definition get_basket_data :: "dataset \<Rightarrow> string list list" where
  "get_basket_data df =
     (let baskets = groupby_baskets df;
          multi_item_baskets = filter (\<lambda>basket. length basket > 1) baskets
      in if length multi_item_baskets > 1000 then take 1000 multi_item_baskets
         else multi_item_baskets)"

subsection \<open>Co-occurrence matrix\<close>

text \<open>
  The co-occurrence frame is created with every cell 0 over the sorted product labels; a
  cell is addressed by its (row label, column label) pair. Every label the loop touches
  comes from the same rows as the index, so no lookup can miss.
\<close>

type_synonym co_matrix = "string \<times> string \<Rightarrow> int"

definition loc_incr :: "string \<Rightarrow> string \<Rightarrow> co_matrix \<Rightarrow> co_matrix" where
  "loc_incr product1 product2 m = m((product1, product2) := m (product1, product2) + 1)"

definition co_inner :: "nat \<Rightarrow> string \<Rightarrow> (nat \<times> string) list \<Rightarrow> co_matrix \<Rightarrow> co_matrix" where
  "co_inner i product1 js m =
     fold (\<lambda>(j, product2) m'. if i \<noteq> j then loc_incr product1 product2 m' else m') js m"

definition co_basket :: "string list \<Rightarrow> co_matrix \<Rightarrow> co_matrix" where
  "co_basket basket m =
     fold (\<lambda>(i, product1) m'. co_inner i product1 (enumerate 0 basket) m')
          (enumerate 0 basket) m"

definition co_occurrence_of :: "string list list \<Rightarrow> co_matrix" where
  "co_occurrence_of baskets =
     fold (\<lambda>basket m. if length basket > 1 then co_basket basket m else m) baskets (\<lambda>_. 0)"

text \<open>
  Number of ordered index pairs \<open>(i, j)\<close>, \<open>i \<noteq> j\<close>, of one basket that hold product
  \<open>A\<close> at \<open>i\<close> and product \<open>B\<close> at \<open>j\<close>: what one basket adds to cell \<open>(A, B)\<close>.
\<close>

definition pair_hits :: "string list \<Rightarrow> string \<Rightarrow> string \<Rightarrow> int" where
  "pair_hits basket A B =
     (\<Sum>(i, p1)\<leftarrow>enumerate 0 basket. \<Sum>(j, p2)\<leftarrow>enumerate 0 basket.
        if i \<noteq> j \<and> p1 = A \<and> p2 = B then 1 else 0)"

record co_frame =
  co_index :: "string list"
  co_cells :: co_matrix

definition get_co_occurrence_matrix :: "dataset \<Rightarrow> co_frame" where
  "get_co_occurrence_matrix df =
     \<lparr>co_index = sort (remdups (map Product df)),
      co_cells = co_occurrence_of (groupby_baskets df)\<rparr>"

section \<open>Customer segments (utils/insights.py)\<close>

datatype segment = High_Value | Medium_Value | Low_Value

record customer_row =
  TotalPurchases :: nat
  ActiveDays :: nat
  AvgPurchasesPerDay :: real

definition categorize_customer :: "customer_row \<Rightarrow> segment" where
  "categorize_customer row =
     (if TotalPurchases row \<ge> 10 \<and> AvgPurchasesPerDay row \<ge> 0.5 then High_Value
      else if TotalPurchases row \<ge> 5 then Medium_Value
      else Low_Value)"

text \<open>
  \<open>groupby('CustomerID').agg({'Product': 'count', 'Date': 'nunique'})\<close> followed by the
  derived column \<open>AvgPurchasesPerDay\<close> (true division) and the \<open>Segment\<close> column.
\<close>

definition customer_agg :: "dataset \<Rightarrow> int \<Rightarrow> customer_row" where
  "customer_agg df c =
     (let mine = filter (\<lambda>r. CustomerID r = c) df;
          total = length mine;
          days = length (remdups (map Date mine))
      in \<lparr>TotalPurchases = total, ActiveDays = days,
          AvgPurchasesPerDay = real total / real days\<rparr>)"

definition customer_stats :: "dataset \<Rightarrow> (int \<times> customer_row \<times> segment) list" where
  "customer_stats df =
     map (\<lambda>c. let row = customer_agg df c in (c, row, categorize_customer row))
         (sort (remdups (map CustomerID df)))"

text \<open>\<open>value_counts().to_dict()\<close>: only the segments that occur are keys.\<close>

definition segment_distribution :: "dataset \<Rightarrow> (segment \<rightharpoonup> nat)" where
  "segment_distribution df s =
     (let n = length (filter (\<lambda>(c, row, seg). seg = s) (customer_stats df))
      in if n = 0 then None else Some n)"

definition get_customer_segments ::
  "dataset \<Rightarrow> (segment \<rightharpoonup> nat) \<times> (int \<times> customer_row \<times> segment) list" where
  "get_customer_segments df = (segment_distribution df, customer_stats df)"

section \<open>Market-basket analysis (utils/recommenders.py)\<close>

datatype error = IndexError | EmptyFrameError

text \<open>\<open>DataFrame.head(n)\<close> and the slice \<open>xs[:n]\<close>: a negative \<open>n\<close> drops the last \<open>-n\<close> items.\<close>

definition py_head :: "int \<Rightarrow> 'a list \<Rightarrow> 'a list" where
  "py_head n xs = (if 0 \<le> n then take (nat n) xs else take (length xs - nat (- n)) xs)"

subsection \<open>Fitting\<close>

text \<open>
  The presence matrix built by \<open>TransactionEncoder\<close>: one column per product that occurs
  (sorted, unique), one row of truth values per basket.
\<close>

record presence_matrix =
  pm_columns :: "string list"
  pm_rows :: "(string \<Rightarrow> bool) list"

definition transaction_encode :: "string list list \<Rightarrow> presence_matrix" where
  "transaction_encode baskets =
     \<lparr>pm_columns = sort (remdups (concat baskets)),
      pm_rows = map (\<lambda>basket c. c \<in> set basket) baskets\<rparr>"

record frequent_itemset =
  fi_support :: real
  fi_itemsets :: "string list"

record rule =
  antecedents :: "string list"
  consequents :: "string list"
  support :: real
  confidence :: real
  lift :: real

text \<open>
  Modelled from the spec: the mining routines \<open>apriori\<close> and \<open>association_rules\<close> are
  library code that is not part of the sources. The spec gives their results: the support
  of an item set is the fraction of baskets containing all its items; the mined item sets
  are those with support at least the minimum support; a rule splits a mined item set
  into antecedent and consequent, has the support of the item set,
  confidence = support(antecedent \<union> consequent) / support(antecedent) and
  lift = confidence / support(consequent), and is retained only if its confidence is at
  least the minimum confidence.
\<close>

definition support_of :: "presence_matrix \<Rightarrow> string list \<Rightarrow> real" where
  "support_of df items =
     real (length (filter (\<lambda>row. list_all row items) (pm_rows df))) / real (length (pm_rows df))"

text \<open>
  Modelled from the spec: \<open>apriori\<close> (library code, not in the sources) returns the
  non-empty item sets over the columns whose support is at least the minimum support.
\<close>

definition apriori :: "presence_matrix \<Rightarrow> real \<Rightarrow> frequent_itemset list" where
  "apriori df min_sup =
     map (\<lambda>items. \<lparr>fi_support = support_of df items, fi_itemsets = items\<rparr>)
       (filter (\<lambda>items. items \<noteq> [] \<and> support_of df items \<ge> min_sup) (subseqs (pm_columns df)))"

text \<open>
  Modelled from the spec: the rules of one mined item set, an antecedent that is a
  non-empty proper part of it and the rest as consequent (part of the absent
  \<open>association_rules\<close>).
\<close>

definition rules_of_itemset :: "presence_matrix \<Rightarrow> string list \<Rightarrow> rule list" where
  "rules_of_itemset df items =
     map (\<lambda>ante.
            let cons = filter (\<lambda>x. x \<notin> set ante) items;
                conf = support_of df items / support_of df ante
            in \<lparr>antecedents = ante, consequents = cons, support = support_of df items,
                confidence = conf, lift = conf / support_of df cons\<rparr>)
       (filter (\<lambda>ante. ante \<noteq> [] \<and> ante \<noteq> items) (subseqs items))"

text \<open>
  Modelled from the spec: \<open>association_rules\<close> (library code, not in the sources) with
  \<open>metric="confidence"\<close> retains the rules whose confidence is at least the threshold.
\<close>

definition association_rules ::
  "presence_matrix \<Rightarrow> frequent_itemset list \<Rightarrow> real \<Rightarrow> rule list" where
  "association_rules df itemsets min_threshold =
     filter (\<lambda>r. confidence r \<ge> min_threshold)
       (concat (map (\<lambda>f. rules_of_itemset df (fi_itemsets f)) itemsets))"

text \<open>
  \<open>MarketBasketAnalyzer\<close>: the two thresholds and the fitted state (\<open>None\<close> before
  \<open>fit\<close>). An empty rule frame is the empty list.
\<close>

record MarketBasketAnalyzer =
  min_support :: real
  min_confidence :: real
  frequent_itemsets :: "frequent_itemset list option"
  rules :: "rule list option"

definition MarketBasketAnalyzer_init :: "real \<Rightarrow> real \<Rightarrow> MarketBasketAnalyzer" where
  "MarketBasketAnalyzer_init min_sup min_conf =
     \<lparr>min_support = min_sup, min_confidence = min_conf,
      frequent_itemsets = None, rules = None\<rparr>"

definition fit :: "MarketBasketAnalyzer \<Rightarrow> string list list \<Rightarrow> MarketBasketAnalyzer" where
  "fit self baskets =
     (let df_baskets = transaction_encode baskets;
          itemsets = apriori df_baskets (min_support self)
      in self\<lparr>frequent_itemsets := Some itemsets,
              rules := Some (if length itemsets > 0
                             then association_rules df_baskets itemsets (min_confidence self)
                             else [])\<rparr>)"

subsection \<open>Queries\<close>

text \<open>
  The text of an explanation is an f-string; the model keeps the values it interpolates:
  the confidence, the products bought and the product recommended.
\<close>

datatype explanation =
  Also_bought real "string list" string
  | Similar_to string
  | Similar_customers

record recommendation =
  r_product :: string
  r_confidence :: real
  r_lift :: real
  r_support :: real
  r_explanation :: explanation

text \<open>
  \<open>sort_values(['confidence', 'lift'], ascending=False)\<close>: descending by confidence, ties
  by lift descending, rows equal in both keep their order.
\<close>

definition sort_values_desc :: "rule list \<Rightarrow> rule list" where
  "sort_values_desc rs = sort_key (\<lambda>r. (- confidence r, - lift r)) rs"

definition mk_recommendation :: "string list \<Rightarrow> string \<Rightarrow> rule \<Rightarrow> recommendation" where
  "mk_recommendation bought consequent r =
     \<lparr>r_product = consequent, r_confidence = confidence r, r_lift = lift r,
      r_support = support r,
      r_explanation = Also_bought (confidence r) bought consequent\<rparr>"

text \<open>
  The loop of \<open>get_recommendations\<close>. \<open>list(rule['consequents'])[0]\<close> raises on an empty
  consequent; the consequent is modelled as the list in its iteration order.
\<close>

fun recommendations_loop ::
  "string \<Rightarrow> rule list \<Rightarrow> recommendation list \<Rightarrow> error + recommendation list" where
  "recommendations_loop product [] recommendations = Inr recommendations"
| "recommendations_loop product (r # rest) recommendations =
     (case consequents r of
        [] \<Rightarrow> Inl IndexError
      | consequent # _ \<Rightarrow>
          if consequent \<noteq> product
          then recommendations_loop product rest
                 (recommendations @ [mk_recommendation [product] consequent r])
          else recommendations_loop product rest recommendations)"

definition get_recommendations ::
  "MarketBasketAnalyzer \<Rightarrow> string \<Rightarrow> int \<Rightarrow> error + recommendation list" where
  "get_recommendations self product top_n =
     (case rules self of
        None \<Rightarrow> Inr []
      | Some rs \<Rightarrow>
          if length rs = 0 then Inr []
          else
            let product_rules = filter (\<lambda>r. product \<in> set (antecedents r)) rs
            in if length product_rules = 0 then Inr []
               else recommendations_loop product
                      (py_head top_n (sort_values_desc product_rules)) [])"

text \<open>The loop of \<open>get_basket_recommendations\<close>, with its early exit.\<close>

fun basket_loop ::
  "string list \<Rightarrow> int \<Rightarrow> rule list \<Rightarrow> recommendation list \<Rightarrow> string set \<Rightarrow>
   error + recommendation list" where
  "basket_loop basket top_n [] recommendations seen_products = Inr recommendations"
| "basket_loop basket top_n (r # rest) recommendations seen_products =
     (case consequents r of
        [] \<Rightarrow> Inl IndexError
      | consequent # _ \<Rightarrow>
          if consequent \<notin> seen_products
          then
            let recommendations' = recommendations @ [mk_recommendation basket consequent r];
                seen_products' = insert consequent seen_products
            in if int (length recommendations') \<ge> top_n then Inr recommendations'
               else basket_loop basket top_n rest recommendations' seen_products'
          else basket_loop basket top_n rest recommendations seen_products)"

definition superset_rules :: "rule list \<Rightarrow> string list \<Rightarrow> rule list" where
  "superset_rules rs basket = filter (\<lambda>r. set basket \<subseteq> set (antecedents r)) rs"

definition intersecting_rules :: "rule list \<Rightarrow> string list \<Rightarrow> rule list" where
  "intersecting_rules rs basket =
     filter (\<lambda>r. card (set basket \<inter> set (antecedents r)) > 0) rs"

definition get_basket_recommendations ::
  "MarketBasketAnalyzer \<Rightarrow> string list \<Rightarrow> int \<Rightarrow> error + recommendation list" where
  "get_basket_recommendations self basket top_n =
     (case rules self of
        None \<Rightarrow> Inr []
      | Some rs \<Rightarrow>
          if length rs = 0 then Inr []
          else
            let basket_rules = superset_rules rs basket;
                basket_rules = (if length basket_rules = 0 then intersecting_rules rs basket
                                else basket_rules)
            in if length basket_rules = 0 then Inr []
               else basket_loop basket top_n (sort_values_desc basket_rules) [] (set basket))"

text \<open>Keeps the first occurrence of every element, in order.\<close>

fun first_occurrences :: "'a list \<Rightarrow> 'a list" where
  "first_occurrences [] = []"
| "first_occurrences (x # xs) = x # first_occurrences (filter (\<lambda>y. y \<noteq> x) xs)"

section \<open>Collaborative filtering (utils/recommenders.py)\<close>

text \<open>
  The customer by product matrix: row labels (customers), column labels (products) and
  one row of purchase counts per customer.
\<close>

record user_item_frame =
  ui_index :: "int list"
  ui_columns :: "string list"
  ui_values :: "real list list"

text \<open>
  The fitted recommender. The factor matrices come from \<open>TruncatedSVD\<close>, library code
  taken as a parameter of \<open>cf_fit\<close>: \<open>fit_transform\<close> gives one vector per customer,
  \<open>components_.T\<close> one vector per product. Scores are reals.
\<close>

record CollaborativeFilteringRecommender =
  n_components :: nat
  user_factors :: "real list list"
  item_factors :: "real list list"
  user_item_matrix :: user_item_frame
  products :: "string list"

definition cf_fit ::
  "(nat \<Rightarrow> real list list \<Rightarrow> real list list \<times> real list list) \<Rightarrow> nat \<Rightarrow> user_item_frame \<Rightarrow>
   CollaborativeFilteringRecommender" where
  "cf_fit svd n m =
     \<lparr>n_components = n,
      user_factors = fst (svd n (ui_values m)),
      item_factors = snd (svd n (ui_values m)),
      user_item_matrix = m,
      products = ui_columns m\<rparr>"

text \<open>\<open>list.index\<close> and \<open>Index.get_loc\<close>, called only for a label that is present.\<close>

fun index_of :: "'a \<Rightarrow> 'a list \<Rightarrow> nat" where
  "index_of x [] = 0"
| "index_of x (y # ys) = (if x = y then 0 else Suc (index_of x ys))"

definition py_nth :: "'a list \<Rightarrow> nat \<Rightarrow> error + 'a" where
  "py_nth xs i = (if i < length xs then Inr (xs ! i) else Inl IndexError)"

definition dot :: "real list \<Rightarrow> real list \<Rightarrow> real" where
  "dot u v = sum_list (map2 (*) u v)"

record similarity_rec =
  s_product :: string
  s_similarity :: real
  s_explanation :: explanation

record score_rec =
  u_product :: string
  u_score :: real
  u_explanation :: explanation

text \<open>
  The loop of \<open>get_product_similarity\<close> over \<open>enumerate(self.products)\<close>. The pairwise
  \<open>cosine_similarity\<close> is library code, taken as the parameter \<open>cosine\<close>.
\<close>

fun similarities_loop ::
  "(real list \<Rightarrow> real list \<Rightarrow> real) \<Rightarrow> string \<Rightarrow> real list \<Rightarrow> real list list \<Rightarrow>
   (nat \<times> string) list \<Rightarrow> (string \<times> real) list \<Rightarrow> error + (string \<times> real) list" where
  "similarities_loop cosine product product_vector factors [] similarities = Inr similarities"
| "similarities_loop cosine product product_vector factors ((i, other_product) # rest) similarities =
     (if other_product \<noteq> product
      then (case py_nth factors i of
              Inl e \<Rightarrow> Inl e
            | Inr other_vector \<Rightarrow>
                similarities_loop cosine product product_vector factors rest
                  (similarities @ [(other_product, cosine product_vector other_vector)]))
      else similarities_loop cosine product product_vector factors rest similarities)"

definition get_product_similarity ::
  "(real list \<Rightarrow> real list \<Rightarrow> real) \<Rightarrow> CollaborativeFilteringRecommender \<Rightarrow> string \<Rightarrow> int \<Rightarrow>
   error + similarity_rec list" where
  "get_product_similarity cosine self product top_n =
     (if product \<notin> set (products self) then Inr []
      else
        case py_nth (item_factors self) (index_of product (products self)) of
          Inl e \<Rightarrow> Inl e
        | Inr product_vector \<Rightarrow>
            (case similarities_loop cosine product product_vector (item_factors self)
                    (enumerate 0 (products self)) [] of
               Inl e \<Rightarrow> Inl e
             | Inr similarities \<Rightarrow>
                 Inr (map (\<lambda>(other_product, similarity).
                             \<lparr>s_product = other_product, s_similarity = similarity,
                              s_explanation = Similar_to product\<rparr>)
                        (py_head top_n (sort_key (\<lambda>x. - snd x) similarities)))))"

text \<open>The loop of \<open>get_user_recommendations\<close>, with its early exit.\<close>

fun user_loop :: "int \<Rightarrow> string list \<Rightarrow> (string \<times> real) list \<Rightarrow> score_rec list \<Rightarrow> score_rec list" where
  "user_loop top_n purchased_products [] recommendations = recommendations"
| "user_loop top_n purchased_products ((product, score) # rest) recommendations =
     (if product \<notin> set purchased_products
      then
        let recommendations' = recommendations @
              [\<lparr>u_product = product, u_score = score, u_explanation = Similar_customers\<rparr>]
        in if int (length recommendations') \<ge> top_n then recommendations'
           else user_loop top_n purchased_products rest recommendations'
      else user_loop top_n purchased_products rest recommendations)"

definition get_user_recommendations ::
  "CollaborativeFilteringRecommender \<Rightarrow> int \<Rightarrow> int \<Rightarrow> error + score_rec list" where
  "get_user_recommendations self user_id top_n =
     (let m = user_item_matrix self in
      if user_id \<notin> set (ui_index m) then Inr []
      else
        let loc = index_of user_id (ui_index m) in
        case py_nth (ui_values m) loc of
          Inl e \<Rightarrow> Inl e
        | Inr user_purchases \<Rightarrow>
            let purchased_products =
                  map fst (filter (\<lambda>(c, v). v > 0) (zip (ui_columns m) user_purchases))
            in case py_nth (user_factors self) loc of
                 Inl e \<Rightarrow> Inl e
               | Inr user_vector \<Rightarrow>
                   let predicted_ratings = map (\<lambda>item. dot item user_vector) (item_factors self);
                       product_scores =
                         sort_key (\<lambda>x. - snd x) (zip (products self) predicted_ratings)
                   in Inr (user_loop top_n purchased_products product_scores []))"

section \<open>Hybrid recommender (utils/recommenders.py)\<close>

record HybridRecommender =
  mba_weight :: real
  cf_weight :: real
  mba :: MarketBasketAnalyzer
  cf :: CollaborativeFilteringRecommender

record hybrid_rec =
  h_product :: string
  h_score :: real
  h_mba_confidence :: "real option"
  h_cf_similarity :: "real option"
  h_explanation :: explanation

text \<open>
  \<open>combined_scores\<close> is a dict, which keeps its keys in insertion order: an association
  list in which assigning to a present key replaces the value in place and assigning to a
  new key appends.
\<close>

definition add_mba_score ::
  "real \<Rightarrow> recommendation \<Rightarrow> (string \<times> hybrid_rec) list \<Rightarrow> (string \<times> hybrid_rec) list" where
  "add_mba_score w rec combined_scores =
     AList.update (r_product rec)
       \<lparr>h_product = r_product rec, h_score = r_confidence rec * w,
        h_mba_confidence = Some (r_confidence rec), h_cf_similarity = None,
        h_explanation = r_explanation rec\<rparr>
       combined_scores"

definition add_cf_score ::
  "real \<Rightarrow> similarity_rec \<Rightarrow> (string \<times> hybrid_rec) list \<Rightarrow> (string \<times> hybrid_rec) list" where
  "add_cf_score w rec combined_scores =
     (let cf_score = s_similarity rec * w in
      AList.map_default (s_product rec)
        \<lparr>h_product = s_product rec, h_score = cf_score,
         h_mba_confidence = None, h_cf_similarity = Some (s_similarity rec),
         h_explanation = s_explanation rec\<rparr>
        (\<lambda>h. h\<lparr>h_score := h_score h + cf_score, h_cf_similarity := Some (s_similarity rec)\<rparr>)
        combined_scores)"

definition combine_scores ::
  "real \<Rightarrow> real \<Rightarrow> recommendation list \<Rightarrow> similarity_rec list \<Rightarrow> (string \<times> hybrid_rec) list" where
  "combine_scores w_mba w_cf mba_recs cf_recs =
     fold (add_cf_score w_cf) cf_recs (fold (add_mba_score w_mba) mba_recs [])"

definition hybrid_get_recommendations ::
  "(real list \<Rightarrow> real list \<Rightarrow> real) \<Rightarrow> HybridRecommender \<Rightarrow> string \<Rightarrow> int \<Rightarrow>
   error + hybrid_rec list" where
  "hybrid_get_recommendations cosine self product top_n =
     (case get_recommendations (mba self) product (top_n * 2) of
        Inl e \<Rightarrow> Inl e
      | Inr mba_recs \<Rightarrow>
          (case get_product_similarity cosine (cf self) product (top_n * 2) of
             Inl e \<Rightarrow> Inl e
           | Inr cf_recs \<Rightarrow>
               let combined_scores =
                     combine_scores (mba_weight self) (cf_weight self) mba_recs cf_recs;
                   final_recommendations =
                     sort_key (\<lambda>h. - h_score h) (map snd combined_scores)
               in Inr (py_head top_n final_recommendations)))"

text \<open>
  The blended score in the spec's words: the weighted market-basket confidence plus the
  weighted similarity, a product known to one model only keeping its single term.
\<close>

definition blended_score :: "real \<Rightarrow> real \<Rightarrow> real option \<Rightarrow> real option \<Rightarrow> real" where
  "blended_score w_mba w_cf conf sim =
     (case (conf, sim) of
        (Some c, Some s) \<Rightarrow> w_mba * c + w_cf * s
      | (Some c, None) \<Rightarrow> w_mba * c
      | (None, Some s) \<Rightarrow> w_cf * s
      | (None, None) \<Rightarrow> 0)"

section \<open>Key performance indicators (utils/insights.py)\<close>

text \<open>
  \<open>BusinessInsights\<close> keeps a reference to the frame of the \<open>DataPreprocessor\<close>, so the
  frame is shared state. Besides the loaded rows it may carry a \<open>Price\<close> column, the only
  column written after loading: \<open>None\<close> while the column is absent, otherwise one cell
  per row, a product without a price giving a missing cell.
\<close>

record frame =
  fr_rows :: dataset
  fr_Price :: "real option list option"

definition price_mapping :: "string \<rightharpoonup> real" where
  "price_mapping = map_of
     [(''White T-shirt'', 25), (''Blue Jeans'', 60), (''Sneakers'', 80),
      (''Leather Jacket'', 200), (''Sunglasses'', 50), (''Backpack'', 40), (''Hoodie'', 45),
      (''Formal Shirt'', 70), (''Dress Shoes'', 120), (''Smartwatch'', 300)]"

text \<open>\<open>round(x, 2)\<close> on reals, halves rounded up.\<close>

definition round2 :: "real \<Rightarrow> real" where
  "round2 x = real_of_int (round (x * 100)) / 100"

record kpis =
  total_transactions :: nat
  unique_customers :: nat
  unique_products :: nat
  avg_basket_size :: real
  total_revenue :: real
  avg_order_value :: real
  date_range :: "int \<times> int"

text \<open>
  \<open>get_kpis\<close> returns the indicators and leaves the frame as the second component. The
  assignment \<open>self.df['Price'] = ...\<close> comes before anything that can raise; on a frame
  without rows the method raises (no group to divide by, no date to format).
\<close>

definition get_kpis :: "frame \<Rightarrow> (error + kpis) \<times> frame" where
  "get_kpis df =
     (let rows = fr_rows df;
          baskets = map length (groupby_baskets rows);
          prices = map (\<lambda>r. price_mapping (Product r)) rows;
          df' = df\<lparr>fr_Price := Some prices\<rparr>;
          revenue = sum_list (map (\<lambda>p. case p of None \<Rightarrow> 0 | Some v \<Rightarrow> v) prices);
          ngroups = length (group_keys rows)
      in (if rows = [] then Inl EmptyFrameError
          else Inr \<lparr>total_transactions = length rows,
                    unique_customers = length (remdups (map CustomerID rows)),
                    unique_products = length (remdups (map Product rows)),
                    avg_basket_size = round2 (real (sum_list baskets) / real (length baskets)),
                    total_revenue = round2 revenue,
                    avg_order_value = round2 (revenue / real ngroups),
                    date_range = (Min (set (map Date rows)), Max (set (map Date rows)))\<rparr>,
          df'))"

section \<open>Model loading (app.py)\<close>

text \<open>The market-basket part of \<open>load_models\<close>: the model is fitted on \<open>get_basket_data\<close>.\<close>

definition load_models_mba :: "dataset \<Rightarrow> MarketBasketAnalyzer" where
  "load_models_mba df = fit (MarketBasketAnalyzer_init 0.02 0.2) (get_basket_data df)"

text \<open>A dataset of \<open>n\<close> customers who each buy two products on day 0.\<close>

definition pairs_dataset :: "nat \<Rightarrow> dataset" where
  "pairs_dataset n = concat (map (\<lambda>i.
       [\<lparr>CustomerID = int i, Product = ''Hoodie'', Date = 0\<rparr>,
        \<lparr>CustomerID = int i, Product = ''Sneakers'', Date = 0\<rparr>]) [0..<n])"

section \<open>Properties of the co-occurrence matrix\<close>

lemma sum_list_swap:
  "(\<Sum>x\<leftarrow>xs. \<Sum>y\<leftarrow>ys. (f x y :: int)) = (\<Sum>y\<leftarrow>ys. \<Sum>x\<leftarrow>xs. f x y)"
  by (induction xs) (simp_all add: sum_list_addf)

lemma sum_list_all_zero:
  "(\<And>x. x \<in> set xs \<Longrightarrow> f x = (0::int)) \<Longrightarrow> sum_list (map f xs) = 0"
  by (induction xs) auto

lemma co_inner_cell:
  "co_inner i p1 js m (A, B) =
     m (A, B) + (\<Sum>(j, p2)\<leftarrow>js. if i \<noteq> j \<and> p1 = A \<and> p2 = B then 1 else 0)"
  unfolding co_inner_def
  by (induction js arbitrary: m) (auto simp: loc_incr_def)

lemma co_outer_cell:
  "fold (\<lambda>(i, p1) m'. co_inner i p1 js m') is m (A, B) =
     m (A, B) +
     (\<Sum>(i, p1)\<leftarrow>is. \<Sum>(j, p2)\<leftarrow>js. if i \<noteq> j \<and> p1 = A \<and> p2 = B then 1 else 0)"
  by (induction "is" arbitrary: m) (auto simp: co_inner_cell)

lemma co_basket_cell: "co_basket basket m (A, B) = m (A, B) + pair_hits basket A B"
  unfolding co_basket_def pair_hits_def by (rule co_outer_cell)

lemma pair_hits_sym: "pair_hits basket A B = pair_hits basket B A"
proof -
  have "pair_hits basket A B =
     (\<Sum>x\<leftarrow>enumerate 0 basket. \<Sum>y\<leftarrow>enumerate 0 basket.
        if fst x \<noteq> fst y \<and> snd x = A \<and> snd y = B then 1 else 0)"
    unfolding pair_hits_def by (simp add: case_prod_unfold)
  also have "\<dots> = (\<Sum>y\<leftarrow>enumerate 0 basket. \<Sum>x\<leftarrow>enumerate 0 basket.
        if fst x \<noteq> fst y \<and> snd x = A \<and> snd y = B then 1 else 0)"
    by (rule sum_list_swap)
  also have "\<dots> = pair_hits basket B A"
    unfolding pair_hits_def
    by (simp add: case_prod_unfold conj_commute neq_commute cong: if_cong)
  finally show ?thesis .
qed

lemma pair_hits_diag:
  assumes "distinct basket"
  shows "pair_hits basket A A = 0"
  unfolding pair_hits_def
proof (rule sum_list_all_zero, clarify)
  fix i p1 assume x: "(i, p1) \<in> set (enumerate 0 basket)"
  show "(\<Sum>(j, p2)\<leftarrow>enumerate 0 basket. if i \<noteq> j \<and> p1 = A \<and> p2 = A then 1 else 0) = (0::int)"
  proof (rule sum_list_all_zero, clarify)
    fix j p2 assume y: "(j, p2) \<in> set (enumerate 0 basket)"
    from x y assms show "(if i \<noteq> j \<and> p1 = A \<and> p2 = A then 1 else 0) = (0::int)"
      by (auto simp: in_set_enumerate_eq nth_eq_iff_index_eq)
  qed
qed

lemma co_fold_cell:
  "fold (\<lambda>basket m. if length basket > 1 then co_basket basket m else m) baskets m (A, B) =
     m (A, B) + (\<Sum>basket\<leftarrow>baskets. if length basket > 1 then pair_hits basket A B else 0)"
  by (induction baskets arbitrary: m) (auto simp: co_basket_cell)

lemma co_occurrence_cell:
  "co_occurrence_of baskets (A, B) =
     (\<Sum>basket\<leftarrow>baskets. if length basket > 1 then pair_hits basket A B else 0)"
  unfolding co_occurrence_of_def co_fold_cell by simp

lemmas co_eval = co_occurrence_of_def co_basket_def co_inner_def loc_incr_def
  enumerate_eq_zip upt_rec

text \<open>
  Claim C1. For every list of baskets in which no basket lists a product twice, the
  co-occurrence matrix is symmetric, cell \<open>(A, B)\<close> equals cell \<open>(B, A)\<close> for all products,
  and every diagonal cell \<open>(A, A)\<close> is zero.
\<close>

theorem co_occurrence_symmetric_zero_diagonal:
  assumes "\<forall>basket \<in> set baskets. distinct basket"
  shows "co_occurrence_of baskets (A, B) = co_occurrence_of baskets (B, A)
       \<and> co_occurrence_of baskets (A, A) = 0"
proof
  show "co_occurrence_of baskets (A, B) = co_occurrence_of baskets (B, A)"
    by (simp only: co_occurrence_cell pair_hits_sym [of _ A B])
  show "co_occurrence_of baskets (A, A) = 0"
    unfolding co_occurrence_cell
    by (rule sum_list_all_zero) (use assms in \<open>simp add: pair_hits_diag\<close>)
qed

theorem co_occurrence_symmetric_zero_diagonal_witness:
  "distinct [''Hoodie'', ''Sneakers''] \<and> distinct [''Hoodie'', ''Sneakers'', ''Backpack'']
   \<and> co_occurrence_of [[''Hoodie'', ''Sneakers''], [''Hoodie'', ''Sneakers'', ''Backpack'']]
        (''Hoodie'', ''Sneakers'') = 2
   \<and> co_occurrence_of [[''Hoodie'', ''Sneakers''], [''Hoodie'', ''Sneakers'', ''Backpack'']]
        (''Sneakers'', ''Hoodie'') = 2
   \<and> co_occurrence_of [[''Hoodie'', ''Sneakers''], [''Hoodie'', ''Sneakers'', ''Backpack'']]
        (''Hoodie'', ''Hoodie'') = 0"
  using co_occurrence_symmetric_zero_diagonal
    [of "[[''Hoodie'', ''Sneakers''], [''Hoodie'', ''Sneakers'', ''Backpack'']]"
        "''Hoodie''" "''Sneakers''"]
  by (simp add: co_eval)

section \<open>Properties of customer segmentation\<close>


lemma categorize_cases:
  "(categorize_customer row = High_Value \<longleftrightarrow>
      TotalPurchases row \<ge> 10 \<and> AvgPurchasesPerDay row \<ge> 0.5)
   \<and> (categorize_customer row = Medium_Value \<longleftrightarrow>
      \<not> (TotalPurchases row \<ge> 10 \<and> AvgPurchasesPerDay row \<ge> 0.5) \<and> TotalPurchases row \<ge> 5)
   \<and> (categorize_customer row = Low_Value \<longleftrightarrow>
      \<not> (TotalPurchases row \<ge> 10 \<and> AvgPurchasesPerDay row \<ge> 0.5) \<and> \<not> TotalPurchases row \<ge> 5)"
  by (simp add: categorize_customer_def)

text \<open>
  Claim C9. Every customer of the data has a row of statistics; its segment is High Value
  exactly when the total purchases are at least 10 and the purchases per active day at
  least 0.5, otherwise Medium Value exactly when the total is at least 5, otherwise Low
  Value. A customer with 12 purchases over 20 active days is High Value, one with 6 over
  20 is Medium Value, one with 3 purchases is Low Value.
\<close>

theorem customer_segments_thresholds:
  "(\<forall>r \<in> set df. \<exists>row seg. (CustomerID r, row, seg) \<in> set (snd (get_customer_segments df)))
   \<and> (\<forall>(c, row, seg) \<in> set (snd (get_customer_segments df)).
        TotalPurchases row = length (filter (\<lambda>r. CustomerID r = c) df)
      \<and> ActiveDays row = card (Date ` {r \<in> set df. CustomerID r = c})
      \<and> AvgPurchasesPerDay row = real (TotalPurchases row) / real (ActiveDays row)
      \<and> (seg = High_Value \<longleftrightarrow>
            TotalPurchases row \<ge> 10 \<and> AvgPurchasesPerDay row \<ge> 0.5)
      \<and> (seg = Medium_Value \<longleftrightarrow>
            \<not> (TotalPurchases row \<ge> 10 \<and> AvgPurchasesPerDay row \<ge> 0.5)
            \<and> TotalPurchases row \<ge> 5)
      \<and> (seg = Low_Value \<longleftrightarrow>
            \<not> (TotalPurchases row \<ge> 10 \<and> AvgPurchasesPerDay row \<ge> 0.5)
            \<and> \<not> TotalPurchases row \<ge> 5))
   \<and> categorize_customer
        \<lparr>TotalPurchases = 12, ActiveDays = 20, AvgPurchasesPerDay = 12 / 20\<rparr> = High_Value
   \<and> categorize_customer
        \<lparr>TotalPurchases = 6, ActiveDays = 20, AvgPurchasesPerDay = 6 / 20\<rparr> = Medium_Value
   \<and> categorize_customer
        \<lparr>TotalPurchases = 3, ActiveDays = d, AvgPurchasesPerDay = 3 / real d\<rparr> = Low_Value"
proof (intro conjI)
  show "\<forall>r \<in> set df. \<exists>row seg. (CustomerID r, row, seg) \<in> set (snd (get_customer_segments df))"
    by (force simp: get_customer_segments_def customer_stats_def Let_def)
  show "\<forall>(c, row, seg) \<in> set (snd (get_customer_segments df)).
        TotalPurchases row = length (filter (\<lambda>r. CustomerID r = c) df)
      \<and> ActiveDays row = card (Date ` {r \<in> set df. CustomerID r = c})
      \<and> AvgPurchasesPerDay row = real (TotalPurchases row) / real (ActiveDays row)
      \<and> (seg = High_Value \<longleftrightarrow>
            TotalPurchases row \<ge> 10 \<and> AvgPurchasesPerDay row \<ge> 0.5)
      \<and> (seg = Medium_Value \<longleftrightarrow>
            \<not> (TotalPurchases row \<ge> 10 \<and> AvgPurchasesPerDay row \<ge> 0.5)
            \<and> TotalPurchases row \<ge> 5)
      \<and> (seg = Low_Value \<longleftrightarrow>
            \<not> (TotalPurchases row \<ge> 10 \<and> AvgPurchasesPerDay row \<ge> 0.5)
            \<and> \<not> TotalPurchases row \<ge> 5)"
  proof (clarify)
    fix c row seg assume "(c, row, seg) \<in> set (snd (get_customer_segments df))"
    then have row: "row = customer_agg df c" and seg: "seg = categorize_customer row"
      by (auto simp: get_customer_segments_def customer_stats_def Let_def)
    have days: "ActiveDays row = card (Date ` {r \<in> set df. CustomerID r = c})"
      unfolding row customer_agg_def Let_def
      by (simp add: length_remdups_card_conv)
    show "TotalPurchases row = length (filter (\<lambda>r. CustomerID r = c) df)
      \<and> ActiveDays row = card (Date ` {r \<in> set df. CustomerID r = c})
      \<and> AvgPurchasesPerDay row = real (TotalPurchases row) / real (ActiveDays row)
      \<and> (seg = High_Value \<longleftrightarrow>
            TotalPurchases row \<ge> 10 \<and> AvgPurchasesPerDay row \<ge> 0.5)
      \<and> (seg = Medium_Value \<longleftrightarrow>
            \<not> (TotalPurchases row \<ge> 10 \<and> AvgPurchasesPerDay row \<ge> 0.5)
            \<and> TotalPurchases row \<ge> 5)
      \<and> (seg = Low_Value \<longleftrightarrow>
            \<not> (TotalPurchases row \<ge> 10 \<and> AvgPurchasesPerDay row \<ge> 0.5)
            \<and> \<not> TotalPurchases row \<ge> 5)"
      using days categorize_cases [of row]
      by (simp add: seg) (simp add: row customer_agg_def Let_def)
  qed
qed (simp_all add: categorize_customer_def)

theorem customer_segments_thresholds_witness:
  "snd (get_customer_segments
     (map (\<lambda>d. \<lparr>CustomerID = 1, Product = ''Hoodie'', Date = d\<rparr>)
          [1, 1, 2, 2, 3, 3, 4, 4, 5, 5, 6]
      @ [\<lparr>CustomerID = 2, Product = ''Hoodie'', Date = 1\<rparr>])) =
   [(1, \<lparr>TotalPurchases = 11, ActiveDays = 6, AvgPurchasesPerDay = 11 / 6\<rparr>, High_Value),
    (2, \<lparr>TotalPurchases = 1, ActiveDays = 1, AvgPurchasesPerDay = 1\<rparr>, Low_Value)]
   \<and> TotalPurchases \<lparr>TotalPurchases = 11, ActiveDays = 6, AvgPurchasesPerDay = 11 / 6\<rparr> \<ge> 10
   \<and> AvgPurchasesPerDay \<lparr>TotalPurchases = 11, ActiveDays = 6, AvgPurchasesPerDay = 11 / 6\<rparr>
       \<ge> 0.5
   \<and> \<not> TotalPurchases \<lparr>TotalPurchases = 1, ActiveDays = 1, AvgPurchasesPerDay = 1\<rparr> \<ge> 5"
  (is "snd (get_customer_segments ?df) = [(1, ?r1, High_Value), (2, ?r2, Low_Value)] \<and> _")
proof -
  have stats: "snd (get_customer_segments ?df) = [(1, ?r1, High_Value), (2, ?r2, Low_Value)]"
    by (simp add: get_customer_segments_def customer_stats_def customer_agg_def
        categorize_customer_def Let_def)
  from customer_segments_thresholds [of ?df 1]
  have all: "\<forall>(c, row, seg) \<in> set (snd (get_customer_segments ?df)).
      (seg = High_Value \<longleftrightarrow> TotalPurchases row \<ge> 10 \<and> AvgPurchasesPerDay row \<ge> 0.5)
    \<and> (seg = Low_Value \<longleftrightarrow>
          \<not> (TotalPurchases row \<ge> 10 \<and> AvgPurchasesPerDay row \<ge> 0.5)
          \<and> \<not> TotalPurchases row \<ge> 5)"
    by fast
  have "(1, ?r1, High_Value) \<in> set (snd (get_customer_segments ?df))"
    and "(2, ?r2, Low_Value) \<in> set (snd (get_customer_segments ?df))"
    unfolding stats by simp_all
  with all have "TotalPurchases ?r1 \<ge> 10 \<and> AvgPurchasesPerDay ?r1 \<ge> 0.5"
    and "\<not> TotalPurchases ?r2 \<ge> 5"
    by fast+
  with stats show ?thesis by blast
qed

text \<open>A customer has at most as many active days as purchases.\<close>

lemma active_days_le_total:
  "ActiveDays (customer_agg df c) \<le> TotalPurchases (customer_agg df c)"
  by (simp add: customer_agg_def Let_def) (metis length_map length_remdups_leq)

section \<open>Properties of basket extraction\<close>

text \<open>
  Claim C10. The basket extraction returns the first 1000 baskets, in grouping order, of
  the baskets with more than one item: no returned basket has size at most 1, at most
  1000 are returned, and when more than 1000 multi-item baskets exist exactly 1000 are
  returned and the rest is cut off. The model loaded by the application is fitted on that
  prefix only.
\<close>

theorem get_basket_data_prefix:
  "get_basket_data df = take 1000 (filter (\<lambda>basket. length basket > 1) (groupby_baskets df))
   \<and> length (get_basket_data df) \<le> 1000
   \<and> list_all (\<lambda>basket. length basket > 1) (get_basket_data df)
   \<and> load_models_mba df =
       fit (MarketBasketAnalyzer_init 0.02 0.2)
         (take 1000 (filter (\<lambda>basket. length basket > 1) (groupby_baskets df)))
   \<and> (length (filter (\<lambda>basket. length basket > 1) (groupby_baskets df)) > 1000 \<longrightarrow>
        length (get_basket_data df) = 1000
      \<and> get_basket_data df \<noteq> filter (\<lambda>basket. length basket > 1) (groupby_baskets df))"
proof -
  have eq: "get_basket_data df =
      take 1000 (filter (\<lambda>basket. length basket > 1) (groupby_baskets df))"
    by (simp add: get_basket_data_def Let_def)
  have "list_all (\<lambda>basket. length basket > 1) (get_basket_data df)"
    unfolding eq list_all_iff by (auto dest: in_set_takeD)
  moreover have "length (get_basket_data df) = 1000
      \<and> get_basket_data df \<noteq> filter (\<lambda>basket. length basket > 1) (groupby_baskets df)"
    if "length (filter (\<lambda>basket. length basket > 1) (groupby_baskets df)) > 1000"
    using that unfolding eq by (metis length_take min.absorb4 nat_neq_iff)
  ultimately show ?thesis
    using eq by (simp add: load_models_mba_def)
qed

lemma keys_pairs_dataset:
  "map (\<lambda>r. (CustomerID r, Date r)) (pairs_dataset n)
     = concat (map (\<lambda>i. [(int i, 0), (int i, 0)]) [0..<n])"
  by (simp add: pairs_dataset_def map_concat comp_def)

lemma remdups_append_disjoint:
  "set xs \<inter> set ys = {} \<Longrightarrow> remdups (xs @ ys) = remdups xs @ remdups ys"
  by (induction xs) auto

lemma remdups_doubled:
  "remdups (concat (map (\<lambda>i. [(int i, 0::int), (int i, 0)]) [0..<n])) = map (\<lambda>i. (int i, 0)) [0..<n]"
proof (induction n)
  case 0
  then show ?case by simp
next
  case (Suc n)
  let ?xs = "concat (map (\<lambda>i. [(int i, 0::int), (int i, 0)]) [0..<n])"
  have "set ?xs \<inter> set [(int n, 0::int), (int n, 0)] = {}" by auto
  then have "remdups (?xs @ [(int n, 0), (int n, 0)])
      = remdups ?xs @ remdups [(int n, 0), (int n, 0)]"
    by (rule remdups_append_disjoint)
  then show ?case
    using Suc by simp
qed

lemma group_keys_pairs_dataset: "group_keys (pairs_dataset n) = map (\<lambda>i. (int i, 0)) [0..<n]"
proof -
  have "sorted (map (\<lambda>i. (int i, 0::int)) [0..<n])"
    by (auto simp: sorted_map less_eq_prod_def intro!: sorted_wrt_mono_rel [OF _ sorted_upt])
  then show ?thesis
    unfolding group_keys_def keys_pairs_dataset remdups_doubled
    by (simp add: sorted_sort_id)
qed

lemma filter_pairs_dataset:
  "i < n \<Longrightarrow> filter (\<lambda>r. CustomerID r = int i \<and> Date r = 0) (pairs_dataset n) =
     [\<lparr>CustomerID = int i, Product = ''Hoodie'', Date = 0\<rparr>,
      \<lparr>CustomerID = int i, Product = ''Sneakers'', Date = 0\<rparr>]"
proof (induction n)
  case 0
  then show ?case by simp
next
  case (Suc n)
  have prefix: "pairs_dataset (Suc n) = pairs_dataset n @
     [\<lparr>CustomerID = int n, Product = ''Hoodie'', Date = 0\<rparr>,
      \<lparr>CustomerID = int n, Product = ''Sneakers'', Date = 0\<rparr>]"
    by (simp add: pairs_dataset_def)
  show ?case
  proof (cases "i = n")
    case True
    have "filter (\<lambda>r. CustomerID r = int n \<and> Date r = 0) (pairs_dataset n) = []"
      by (auto simp: pairs_dataset_def filter_empty_conv)
    with True show ?thesis by (simp add: prefix)
  next
    case False
    with Suc show ?thesis by (simp add: prefix)
  qed
qed

lemma groupby_pairs_dataset:
  "groupby_baskets (pairs_dataset n) = replicate n [''Hoodie'', ''Sneakers'']"
proof -
  have "map (\<lambda>k. map Product (filter (\<lambda>r. (CustomerID r, Date r) = k) (pairs_dataset n)))
          (map (\<lambda>i. (int i, 0)) [0..<n])
      = map (\<lambda>i. [''Hoodie'', ''Sneakers'']) [0..<n]"
    by (simp add: filter_pairs_dataset)
  then show ?thesis
    unfolding groupby_baskets_def group_keys_pairs_dataset
    by (simp add: map_replicate_const)
qed

lemma multi_item_pairs_dataset:
  "filter (\<lambda>basket. length basket > 1) (groupby_baskets (pairs_dataset n))
     = replicate n [''Hoodie'', ''Sneakers'']"
  unfolding groupby_pairs_dataset by simp

theorem get_basket_data_prefix_witness:
  "length (filter (\<lambda>basket. length basket > 1) (groupby_baskets (pairs_dataset 1001))) > 1000
   \<and> length (get_basket_data (pairs_dataset 1001)) = 1000
   \<and> get_basket_data (pairs_dataset 1001)
       \<noteq> filter (\<lambda>basket. length basket > 1) (groupby_baskets (pairs_dataset 1001))"
proof -
  have "length (replicate 1001 [''Hoodie'', ''Sneakers'']) > 1000"
    unfolding length_replicate by simp
  then have many:
    "length (filter (\<lambda>basket. length basket > 1) (groupby_baskets (pairs_dataset 1001))) > 1000"
    unfolding multi_item_pairs_dataset .
  note cut = get_basket_data_prefix [of "pairs_dataset 1001",
      THEN conjunct2, THEN conjunct2, THEN conjunct2, THEN conjunct2, THEN mp, OF many]
  from many cut show ?thesis by (rule conjI)
qed

section \<open>Properties of fitting\<close>

lemma length_filter_mono:
  "(\<And>x. x \<in> set xs \<Longrightarrow> P x \<Longrightarrow> Q x) \<Longrightarrow> length (filter P xs) \<le> length (filter Q xs)"
  by (induction xs) auto

lemma support_of_antimono:
  assumes "set S \<subseteq> set T"
  shows "support_of df T \<le> support_of df S"
proof -
  have "length (filter (\<lambda>row. list_all row T) (pm_rows df))
      \<le> length (filter (\<lambda>row. list_all row S) (pm_rows df))"
    using assms by (intro length_filter_mono) (auto simp: list_all_iff)
  then show ?thesis
    unfolding support_of_def by (simp add: divide_right_mono)
qed

lemma apriori_member:
  "f \<in> set (apriori df min_sup) \<Longrightarrow>
     fi_support f = support_of df (fi_itemsets f) \<and> fi_support f \<ge> min_sup \<and> fi_itemsets f \<noteq> []"
  by (auto simp: apriori_def)

lemma rules_of_itemset_member:
  assumes "r \<in> set (rules_of_itemset df items)"
  shows "set (antecedents r) \<union> set (consequents r) = set items
       \<and> set (antecedents r) \<inter> set (consequents r) = {}
       \<and> support r = support_of df items
       \<and> confidence r = support_of df items / support_of df (antecedents r)
       \<and> lift r = confidence r / support_of df (consequents r)"
proof -
  from assms obtain ante where a: "ante \<in> set (subseqs items)"
    and r: "r = \<lparr>antecedents = ante, consequents = filter (\<lambda>x. x \<notin> set ante) items,
                support = support_of df items,
                confidence = support_of df items / support_of df ante,
                lift = support_of df items / support_of df ante
                       / support_of df (filter (\<lambda>x. x \<notin> set ante) items)\<rparr>"
    by (auto simp: rules_of_itemset_def Let_def)
  from a have "set ante \<subseteq> set items"
    by (metis PowD imageI subseqs_powset)
  then show ?thesis by (auto simp: r)
qed

lemma association_rules_member:
  assumes "r \<in> set (association_rules df itemsets min_threshold)"
  shows "confidence r \<ge> min_threshold
       \<and> (\<exists>f \<in> set itemsets. r \<in> set (rules_of_itemset df (fi_itemsets f)))"
  using assms by (auto simp: association_rules_def)

lemma fit_state:
  "frequent_itemsets (fit self baskets) =
      Some (apriori (transaction_encode baskets) (min_support self))
   \<and> rules (fit self baskets) =
      Some (if apriori (transaction_encode baskets) (min_support self) = [] then []
            else association_rules (transaction_encode baskets)
                   (apriori (transaction_encode baskets) (min_support self))
                   (min_confidence self))"
  by (simp add: fit_def Let_def)

lemmas fit_eval = fit_def MarketBasketAnalyzer_init_def transaction_encode_def apriori_def
  association_rules_def rules_of_itemset_def support_of_def Let_def

lemma fit_scenario:
  "fit (MarketBasketAnalyzer_init 0.3 0.1)
     [[''White T-shirt'', ''Blue Jeans''], [''White T-shirt'', ''Blue Jeans''], [''Sneakers'']] =
   \<lparr>min_support = 0.3, min_confidence = 0.1,
    frequent_itemsets = Some
     [\<lparr>fi_support = 2 / 3, fi_itemsets = [''Blue Jeans'', ''White T-shirt'']\<rparr>,
      \<lparr>fi_support = 2 / 3, fi_itemsets = [''Blue Jeans'']\<rparr>,
      \<lparr>fi_support = 1 / 3, fi_itemsets = [''Sneakers'']\<rparr>,
      \<lparr>fi_support = 2 / 3, fi_itemsets = [''White T-shirt'']\<rparr>],
    rules = Some
     [\<lparr>antecedents = [''Blue Jeans''], consequents = [''White T-shirt''],
        support = 2 / 3, confidence = 1, lift = 3 / 2\<rparr>,
      \<lparr>antecedents = [''White T-shirt''], consequents = [''Blue Jeans''],
        support = 2 / 3, confidence = 1, lift = 3 / 2\<rparr>]\<rparr>"
  by (simp add: fit_eval)

lemma fit_nothing_frequent:
  "fit (MarketBasketAnalyzer_init 2 0.1) [[''Hoodie'', ''Sneakers'']] =
   \<lparr>min_support = 2, min_confidence = 0.1, frequent_itemsets = Some [], rules = Some []\<rparr>"
  by (simp add: fit_eval)

text \<open>
  Claim C5. After fitting, every retained rule has confidence at least the minimum
  confidence and comes from a mined item set (its antecedent together with its consequent)
  whose support is at least the minimum support; when no item set clears the support
  threshold the rule set is empty, and fitting returns normally.
\<close>

theorem fit_rules_meet_thresholds:
  "\<exists>itemsets rs.
      frequent_itemsets (fit self baskets) = Some itemsets \<and> rules (fit self baskets) = Some rs
    \<and> (\<forall>r \<in> set rs.
          confidence r \<ge> min_confidence self
        \<and> (\<exists>f \<in> set itemsets.
              set (fi_itemsets f) = set (antecedents r) \<union> set (consequents r)
            \<and> support r = fi_support f
            \<and> fi_support f = support_of (transaction_encode baskets) (fi_itemsets f)
            \<and> fi_support f \<ge> min_support self))
    \<and> (itemsets = [] \<longrightarrow> rs = [])"
proof -
  let ?df = "transaction_encode baskets"
  let ?fi = "apriori ?df (min_support self)"
  let ?rs = "if ?fi = [] then [] else association_rules ?df ?fi (min_confidence self)"
  have "confidence r \<ge> min_confidence self
        \<and> (\<exists>f \<in> set ?fi.
              set (fi_itemsets f) = set (antecedents r) \<union> set (consequents r)
            \<and> support r = fi_support f
            \<and> fi_support f = support_of ?df (fi_itemsets f)
            \<and> fi_support f \<ge> min_support self)" if "r \<in> set ?rs" for r
  proof -
    from that have r: "r \<in> set (association_rules ?df ?fi (min_confidence self))"
      by (auto split: if_splits)
    then obtain f where f: "f \<in> set ?fi" "r \<in> set (rules_of_itemset ?df (fi_itemsets f))"
      using association_rules_member by blast
    from rules_of_itemset_member [OF f(2)] apriori_member [OF f(1)] f(1)
      association_rules_member [OF r]
    show ?thesis by auto
  qed
  then show ?thesis
    using fit_state [of self baskets] by (intro exI [of _ ?fi] exI [of _ ?rs]) simp
qed

theorem fit_rules_meet_thresholds_witness:
  "rules (fit (MarketBasketAnalyzer_init 0.3 0.1)
     [[''White T-shirt'', ''Blue Jeans''], [''White T-shirt'', ''Blue Jeans''], [''Sneakers'']]) =
     Some [\<lparr>antecedents = [''Blue Jeans''], consequents = [''White T-shirt''],
              support = 2 / 3, confidence = 1, lift = 3 / 2\<rparr>,
           \<lparr>antecedents = [''White T-shirt''], consequents = [''Blue Jeans''],
              support = 2 / 3, confidence = 1, lift = 3 / 2\<rparr>]
   \<and> \<lparr>fi_support = 2 / 3, fi_itemsets = [''Blue Jeans'', ''White T-shirt'']\<rparr>
       \<in> set (the (frequent_itemsets (fit (MarketBasketAnalyzer_init 0.3 0.1)
            [[''White T-shirt'', ''Blue Jeans''], [''White T-shirt'', ''Blue Jeans''],
             [''Sneakers'']])))
   \<and> (1::real) \<ge> 0.1 \<and> (2 / 3 :: real) \<ge> 0.3
   \<and> frequent_itemsets (fit (MarketBasketAnalyzer_init 2 0.1) [[''Hoodie'', ''Sneakers'']])
       = Some []
   \<and> rules (fit (MarketBasketAnalyzer_init 2 0.1) [[''Hoodie'', ''Sneakers'']]) = Some []"
  using fit_rules_meet_thresholds [of "MarketBasketAnalyzer_init 0.3 0.1"
      "[[''White T-shirt'', ''Blue Jeans''], [''White T-shirt'', ''Blue Jeans''], [''Sneakers'']]"]
    fit_rules_meet_thresholds [of "MarketBasketAnalyzer_init 2 0.1" "[[''Hoodie'', ''Sneakers'']]"]
  by (simp add: fit_scenario fit_nothing_frequent)

text \<open>
  Claim C6. For mined item sets \<open>S\<close> and \<open>S \<union> {x}\<close> of a fitted model, the support of
  \<open>S \<union> {x}\<close> is at most the support of \<open>S\<close>.
\<close>

theorem support_anti_monotone:
  "\<exists>itemsets. frequent_itemsets (fit self baskets) = Some itemsets
     \<and> (\<forall>f \<in> set itemsets. \<forall>g \<in> set itemsets.
           set (fi_itemsets g) = insert x (set (fi_itemsets f)) \<longrightarrow> fi_support g \<le> fi_support f)"
proof -
  let ?df = "transaction_encode baskets"
  let ?fi = "apriori ?df (min_support self)"
  have "fi_support g \<le> fi_support f"
    if "f \<in> set ?fi" "g \<in> set ?fi" "set (fi_itemsets g) = insert x (set (fi_itemsets f))" for f g
  proof -
    have "support_of ?df (fi_itemsets g) \<le> support_of ?df (fi_itemsets f)"
      using that(3) by (intro support_of_antimono) auto
    with apriori_member [OF that(1)] apriori_member [OF that(2)] show ?thesis by simp
  qed
  then show ?thesis
    using fit_state [of self baskets] by (intro exI [of _ ?fi]) simp
qed

theorem support_anti_monotone_witness:
  "\<lparr>fi_support = 2 / 3, fi_itemsets = [''Blue Jeans'']\<rparr>
       \<in> set (the (frequent_itemsets (fit (MarketBasketAnalyzer_init 0.3 0.1)
            [[''White T-shirt'', ''Blue Jeans''], [''White T-shirt'', ''Blue Jeans''],
             [''Sneakers'']])))
   \<and> \<lparr>fi_support = 2 / 3, fi_itemsets = [''Blue Jeans'', ''White T-shirt'']\<rparr>
       \<in> set (the (frequent_itemsets (fit (MarketBasketAnalyzer_init 0.3 0.1)
            [[''White T-shirt'', ''Blue Jeans''], [''White T-shirt'', ''Blue Jeans''],
             [''Sneakers'']])))
   \<and> set (fi_itemsets \<lparr>fi_support = 2 / 3, fi_itemsets = [''Blue Jeans'', ''White T-shirt'']\<rparr>)
       = insert ''White T-shirt''
           (set (fi_itemsets \<lparr>fi_support = 2 / 3, fi_itemsets = [''Blue Jeans'']\<rparr>))
   \<and> fi_support \<lparr>fi_support = 2 / 3, fi_itemsets = [''Blue Jeans'', ''White T-shirt'']\<rparr>
       \<le> fi_support \<lparr>fi_support = 2 / 3, fi_itemsets = [''Blue Jeans'']\<rparr>"
  (is "?f \<in> set (the (frequent_itemsets ?m)) \<and> ?g \<in> _ \<and> ?step \<and> ?le")
proof -
  have f: "?f \<in> set (the (frequent_itemsets ?m))" and g: "?g \<in> set (the (frequent_itemsets ?m))"
    by (simp_all add: fit_scenario)
  have step: ?step by auto
  from support_anti_monotone [of "MarketBasketAnalyzer_init 0.3 0.1"
      "[[''White T-shirt'', ''Blue Jeans''], [''White T-shirt'', ''Blue Jeans''], [''Sneakers'']]"
      "''White T-shirt''"]
  obtain itemsets where fitted: "frequent_itemsets ?m = Some itemsets"
    and mono: "\<forall>f \<in> set itemsets. \<forall>g \<in> set itemsets.
        set (fi_itemsets g) = insert ''White T-shirt'' (set (fi_itemsets f))
        \<longrightarrow> fi_support g \<le> fi_support f"
    by blast
  from f g fitted have "?f \<in> set itemsets" "?g \<in> set itemsets" by simp_all
  with mono step have ?le by blast
  with f g step show ?thesis by blast
qed

text \<open>
  Every rule of a fitted model has a non-empty antecedent and a non-empty consequent, and
  the two are disjoint.
\<close>

lemma transaction_encode_columns_distinct: "distinct (pm_columns (transaction_encode baskets))"
  by (simp add: transaction_encode_def)

lemma rules_of_itemset_nonempty:
  assumes "distinct items" and "r \<in> set (rules_of_itemset df items)"
  shows "antecedents r \<noteq> [] \<and> consequents r \<noteq> []"
proof -
  from assms(2) obtain ante where mem: "ante \<in> set (subseqs items)"
    and ne: "ante \<noteq> []" "ante \<noteq> items"
    and r: "antecedents r = ante" "consequents r = filter (\<lambda>x. x \<notin> set ante) items"
    by (auto simp: rules_of_itemset_def Let_def simp del: in_set_subseqs)
  have "filter (\<lambda>x. x \<notin> set ante) items \<noteq> []"
  proof
    assume "filter (\<lambda>x. x \<notin> set ante) items = []"
    then have "set items \<subseteq> set ante" by (auto simp: filter_empty_conv)
    moreover from mem have "set ante \<subseteq> set items"
      by (metis PowD imageI subseqs_powset)
    ultimately have "set ante = set items" by auto
    moreover from mem assms(1) have "distinct ante" by (rule subseqs_distinctD)
    ultimately have "length ante = length items"
      using assms(1) by (metis distinct_card)
    moreover from mem have "subseq ante items" by simp
    ultimately have "ante = items" by (metis subseq_same_length)
    with ne show False by simp
  qed
  with ne r show ?thesis by simp
qed

lemma apriori_itemsets_distinct:
  "distinct (pm_columns df) \<Longrightarrow> f \<in> set (apriori df min_sup) \<Longrightarrow> distinct (fi_itemsets f)"
  by (auto simp: apriori_def simp del: in_set_subseqs dest: subseqs_distinctD)

lemma fit_rules_well_formed:
  assumes "rules (fit self baskets) = Some rs" and "r \<in> set rs"
  shows "antecedents r \<noteq> [] \<and> consequents r \<noteq> []
       \<and> set (antecedents r) \<inter> set (consequents r) = {}"
proof -
  let ?df = "transaction_encode baskets"
  let ?fi = "apriori ?df (min_support self)"
  from assms fit_state [of self baskets]
  have "r \<in> set (association_rules ?df ?fi (min_confidence self))"
    by (auto split: if_splits)
  then obtain f where f: "f \<in> set ?fi" "r \<in> set (rules_of_itemset ?df (fi_itemsets f))"
    using association_rules_member by blast
  from f(1) have "distinct (fi_itemsets f)"
    by (rule apriori_itemsets_distinct [OF transaction_encode_columns_distinct])
  from rules_of_itemset_nonempty [OF this f(2)] rules_of_itemset_member [OF f(2)]
  show ?thesis by blast
qed

section \<open>Properties of the market-basket queries\<close>

lemma recommendations_loop_eq:
  assumes "\<forall>r \<in> set rs. consequents r \<noteq> []"
  shows "recommendations_loop product rs acc =
     Inr (acc @ map (\<lambda>r. mk_recommendation [product] (hd (consequents r)) r)
                  (filter (\<lambda>r. hd (consequents r) \<noteq> product) rs))"
  using assms
proof (induction rs arbitrary: acc)
  case Nil
  then show ?case by simp
next
  case (Cons r rs)
  then obtain c cs where c: "consequents r = c # cs"
    by (cases "consequents r") auto
  with Cons show ?case by simp
qed

lemma py_head_nonneg: "0 \<le> n \<Longrightarrow> py_head n xs = take (nat n) xs"
  by (simp add: py_head_def)

lemma set_sort_values_desc: "set (sort_values_desc rs) = set rs"
  by (simp add: sort_values_desc_def)

lemma sorted_sort_values_desc:
  "sorted_wrt (\<lambda>a b. confidence a > confidence b
                    \<or> (confidence a = confidence b \<and> lift a \<ge> lift b)) (sort_values_desc rs)"
proof -
  have "sorted (map (\<lambda>r. (- confidence r, - lift r)) (sort_values_desc rs))"
    unfolding sort_values_desc_def by (rule sorted_sort_key)
  then have "sorted_wrt (\<lambda>a b. (- confidence a, - lift a) \<le> (- confidence b, - lift b))
               (sort_values_desc rs)"
    by (simp add: sorted_wrt_map)
  then show ?thesis
    by (rule sorted_wrt_mono_rel [rotated]) (auto simp: less_eq_prod_def)
qed

text \<open>
  Claim C3. For a fitted model whose rules have non-empty consequents and a non-negative
  \<open>top_n\<close>, the per-product query returns normally, never returns the query product,
  returns at most \<open>top_n\<close> recommendations, ordered by confidence descending then lift
  descending; and when antecedent and consequent of every rule are disjoint, as in mined
  association rules, the result is: the rules whose antecedent contains the product, minus
  those whose consequent equals the antecedent, sorted, cut to \<open>top_n\<close>.
\<close>

theorem get_recommendations_spec:
  assumes fitted: "rules self = Some rs"
    and nonempty: "\<forall>r \<in> set rs. consequents r \<noteq> []"
    and top_n: "0 \<le> top_n"
  shows "\<exists>recs. get_recommendations self product top_n = Inr recs
     \<and> product \<notin> set (map r_product recs)
     \<and> int (length recs) \<le> top_n
     \<and> sorted_wrt (\<lambda>a b. r_confidence a > r_confidence b
                       \<or> (r_confidence a = r_confidence b \<and> r_lift a \<ge> r_lift b)) recs
     \<and> ((\<forall>r \<in> set rs. set (antecedents r) \<inter> set (consequents r) = {}) \<longrightarrow>
          recs = map (\<lambda>r. mk_recommendation [product] (hd (consequents r)) r)
                   (take (nat top_n)
                      (sort_values_desc
                         (filter (\<lambda>r. set (consequents r) \<noteq> set (antecedents r))
                            (filter (\<lambda>r. product \<in> set (antecedents r)) rs)))))"
proof -
  let ?sel = "filter (\<lambda>r. product \<in> set (antecedents r)) rs"
  let ?top = "take (nat top_n) (sort_values_desc ?sel)"
  let ?mk = "\<lambda>r. mk_recommendation [product] (hd (consequents r)) r"
  let ?recs = "map ?mk (filter (\<lambda>r. hd (consequents r) \<noteq> product) ?top)"
  have top_sub: "set ?top \<subseteq> set ?sel"
    using set_take_subset [of "nat top_n" "sort_values_desc ?sel"]
    by (simp add: set_sort_values_desc)
  then have ne: "\<forall>r \<in> set ?top. consequents r \<noteq> []"
    using nonempty by auto
  have res: "get_recommendations self product top_n = Inr ?recs"
  proof (cases "?sel = []")
    case True
    then show ?thesis
      by (simp add: get_recommendations_def fitted Let_def sort_values_desc_def)
  next
    case False
    then have "rs \<noteq> []" by auto
    with False show ?thesis
      using recommendations_loop_eq [OF ne, of product "[]"]
      by (simp add: get_recommendations_def fitted Let_def py_head_nonneg [OF top_n])
  qed
  have no_query: "product \<notin> set (map r_product ?recs)"
    by (auto simp: mk_recommendation_def)
  have "length (filter (\<lambda>r. hd (consequents r) \<noteq> product) ?top) \<le> length ?top"
    by (rule length_filter_le)
  moreover have "length ?top \<le> nat top_n" by simp
  ultimately have "length (filter (\<lambda>r. hd (consequents r) \<noteq> product) ?top) \<le> nat top_n"
    by (rule le_trans)
  then have len: "int (length ?recs) \<le> top_n"
    unfolding length_map le_nat_iff [OF top_n] .
  have "sorted_wrt (\<lambda>a b. confidence a > confidence b
                    \<or> (confidence a = confidence b \<and> lift a \<ge> lift b))
          (filter (\<lambda>r. hd (consequents r) \<noteq> product) ?top)"
    by (intro sorted_wrt_filter sorted_wrt_take sorted_sort_values_desc)
  then have sorted: "sorted_wrt (\<lambda>a b. r_confidence a > r_confidence b
                       \<or> (r_confidence a = r_confidence b \<and> r_lift a \<ge> r_lift b)) ?recs"
    by (simp add: sorted_wrt_map mk_recommendation_def)
  have pipeline: "?recs = map ?mk
                   (take (nat top_n)
                      (sort_values_desc
                         (filter (\<lambda>r. set (consequents r) \<noteq> set (antecedents r)) ?sel)))"
    if disj: "\<forall>r \<in> set rs. set (antecedents r) \<inter> set (consequents r) = {}"
  proof -
    have "set (consequents r) \<noteq> set (antecedents r)" if "r \<in> set rs" for r
      using that disj nonempty by (metis inf.idem set_empty)
    then have a: "filter (\<lambda>r. set (consequents r) \<noteq> set (antecedents r)) ?sel = ?sel"
      by (intro filter_True) auto
    have "hd (consequents r) \<noteq> product" if "r \<in> set ?top" for r
    proof -
      from that top_sub have "r \<in> set rs" "product \<in> set (antecedents r)" by auto
      moreover from this nonempty have "hd (consequents r) \<in> set (consequents r)" by simp
      ultimately show ?thesis using disj by auto
    qed
    then have b: "filter (\<lambda>r. hd (consequents r) \<noteq> product) ?top = ?top"
      by (intro filter_True) auto
    show ?thesis by (simp only: a b)
  qed
  show ?thesis
    using res no_query len sorted pipeline by blast
qed


lemmas query_eval = get_recommendations_def get_basket_recommendations_def py_head_def
  sort_values_desc_def mk_recommendation_def superset_rules_def intersecting_rules_def
  less_eq_prod_def Let_def

theorem get_recommendations_spec_witness:
  "get_recommendations
      \<lparr>min_support = 0.01, min_confidence = 0.1, frequent_itemsets = None,
        rules = Some
        [\<lparr>antecedents = [''Hoodie''], consequents = [''Sneakers''],
            support = 0.2, confidence = 0.5, lift = 1.2\<rparr>,
         \<lparr>antecedents = [''Hoodie''], consequents = [''Backpack''],
            support = 0.3, confidence = 0.8, lift = 1.5\<rparr>,
         \<lparr>antecedents = [''Sneakers''], consequents = [''Hoodie''],
            support = 0.2, confidence = 0.9, lift = 1.2\<rparr>,
         \<lparr>antecedents = [''Hoodie'', ''Backpack''], consequents = [''Sneakers''],
            support = 0.1, confidence = 0.6, lift = 1.1\<rparr>]\<rparr>
      ''Hoodie'' 2 =
    Inr [\<lparr>r_product = ''Backpack'', r_confidence = 0.8, r_lift = 1.5, r_support = 0.3,
           r_explanation = Also_bought 0.8 [''Hoodie''] ''Backpack''\<rparr>,
         \<lparr>r_product = ''Sneakers'', r_confidence = 0.6, r_lift = 1.1, r_support = 0.1,
           r_explanation = Also_bought 0.6 [''Hoodie''] ''Sneakers''\<rparr>]
   \<and> (0::int) \<le> 2
   \<and> list_all (\<lambda>r. consequents r \<noteq> [] \<and> set (antecedents r) \<inter> set (consequents r) = {})
        [\<lparr>antecedents = [''Hoodie''], consequents = [''Sneakers''],
            support = 0.2, confidence = 0.5, lift = 1.2\<rparr>,
         \<lparr>antecedents = [''Hoodie''], consequents = [''Backpack''],
            support = 0.3, confidence = 0.8, lift = 1.5\<rparr>,
         \<lparr>antecedents = [''Sneakers''], consequents = [''Hoodie''],
            support = 0.2, confidence = 0.9, lift = 1.2\<rparr>,
         \<lparr>antecedents = [''Hoodie'', ''Backpack''], consequents = [''Sneakers''],
            support = 0.1, confidence = 0.6, lift = 1.1\<rparr>]"
  using get_recommendations_spec
    [of "\<lparr>min_support = 0.01, min_confidence = 0.1, frequent_itemsets = None,
        rules = Some
        [\<lparr>antecedents = [''Hoodie''], consequents = [''Sneakers''],
            support = 0.2, confidence = 0.5, lift = 1.2\<rparr>,
         \<lparr>antecedents = [''Hoodie''], consequents = [''Backpack''],
            support = 0.3, confidence = 0.8, lift = 1.5\<rparr>,
         \<lparr>antecedents = [''Sneakers''], consequents = [''Hoodie''],
            support = 0.2, confidence = 0.9, lift = 1.2\<rparr>,
         \<lparr>antecedents = [''Hoodie'', ''Backpack''], consequents = [''Sneakers''],
            support = 0.1, confidence = 0.6, lift = 1.1\<rparr>]\<rparr>"
        "[\<lparr>antecedents = [''Hoodie''], consequents = [''Sneakers''],
            support = 0.2, confidence = 0.5, lift = 1.2\<rparr>,
         \<lparr>antecedents = [''Hoodie''], consequents = [''Backpack''],
            support = 0.3, confidence = 0.8, lift = 1.5\<rparr>,
         \<lparr>antecedents = [''Sneakers''], consequents = [''Hoodie''],
            support = 0.2, confidence = 0.9, lift = 1.2\<rparr>,
         \<lparr>antecedents = [''Hoodie'', ''Backpack''], consequents = [''Sneakers''],
            support = 0.1, confidence = 0.6, lift = 1.1\<rparr>]"
        2 "''Hoodie''"]
  by (simp add: query_eval)

lemma set_first_occurrences: "set (first_occurrences xs) = set xs"
  by (induction xs rule: first_occurrences.induct) auto

lemma distinct_first_occurrences: "distinct (first_occurrences xs)"
  by (induction xs rule: first_occurrences.induct) (auto simp: set_first_occurrences)

lemma max_one_step: "2 \<le> (d::int) \<Longrightarrow> max 1 (nat d) = Suc (max 1 (nat (d - 1)))"
  by fastforce

lemma basket_loop_eq:
  assumes "\<forall>r \<in> set rs. consequents r \<noteq> []"
  shows "\<exists>new. basket_loop basket top_n rs recs seen = Inr (recs @ new)
     \<and> map r_product new =
         take (max 1 (nat (top_n - int (length recs))))
           (first_occurrences (filter (\<lambda>c. c \<notin> seen) (map (\<lambda>r. hd (consequents r)) rs)))"
  using assms
proof (induction rs arbitrary: recs seen)
  case Nil
  then show ?case by simp
next
  case (Cons r rs)
  then obtain c cs where c: "consequents r = c # cs"
    by (cases "consequents r") auto
  from Cons.prems have ne: "\<forall>r \<in> set rs. consequents r \<noteq> []" by simp
  let ?heads = "map (\<lambda>r. hd (consequents r)) rs"
  show ?case
  proof (cases "c \<in> seen")
    case True
    with Cons.IH [OF ne, of recs seen] c show ?thesis by simp
  next
    case False
    let ?recs' = "recs @ [mk_recommendation basket c r]"
    have filt: "filter (\<lambda>y. y \<noteq> c) (filter (\<lambda>c. c \<notin> seen) ?heads)
              = filter (\<lambda>y. y \<notin> insert c seen) ?heads"
      by (induction rs) auto
    show ?thesis
    proof (cases "int (length ?recs') \<ge> top_n")
      case True
      then have "max 1 (nat (top_n - int (length recs))) = 1" by simp
      with True False c show ?thesis
        by (simp add: Let_def mk_recommendation_def)
    next
      case stop: False
      from Cons.IH [OF ne, of ?recs' "insert c seen"] obtain new where
        new: "basket_loop basket top_n rs ?recs' (insert c seen) = Inr (?recs' @ new)"
          "map r_product new = take (max 1 (nat (top_n - int (length ?recs'))))
             (first_occurrences (filter (\<lambda>y. y \<notin> insert c seen) ?heads))"
        by blast
      from stop have "top_n - int (length recs) \<ge> 2" by simp
      then have "max 1 (nat (top_n - int (length recs)))
               = Suc (max 1 (nat (top_n - int (length recs) - 1)))"
        by (rule max_one_step)
      moreover have "top_n - int (length ?recs') = top_n - int (length recs) - 1" by simp
      ultimately have k: "max 1 (nat (top_n - int (length recs)))
                       = Suc (max 1 (nat (top_n - int (length ?recs'))))"
        by (simp only:)
      have "basket_loop basket top_n (r # rs) recs seen
              = Inr (recs @ (mk_recommendation basket c r # new))"
        using False stop c new(1) by (simp add: Let_def)
      moreover have "map r_product (mk_recommendation basket c r # new) =
         take (max 1 (nat (top_n - int (length recs))))
           (first_occurrences (filter (\<lambda>c. c \<notin> seen) (map (\<lambda>r. hd (consequents r)) (r # rs))))"
      proof -
        have heads: "filter (\<lambda>c. c \<notin> seen) (map (\<lambda>r. hd (consequents r)) (r # rs))
                   = c # filter (\<lambda>c. c \<notin> seen) ?heads"
          using False c by simp
        have "map r_product (mk_recommendation basket c r # new) = c # map r_product new"
          by (simp add: mk_recommendation_def)
        also have "\<dots> = take (Suc (max 1 (nat (top_n - int (length ?recs')))))
             (c # first_occurrences (filter (\<lambda>y. y \<noteq> c) (filter (\<lambda>c. c \<notin> seen) ?heads)))"
          by (simp only: take_Suc_Cons filt new(2))
        also have "\<dots> = take (max 1 (nat (top_n - int (length recs))))
             (first_occurrences (filter (\<lambda>c. c \<notin> seen) (map (\<lambda>r. hd (consequents r)) (r # rs))))"
          by (simp only: k heads first_occurrences.simps)
        finally show ?thesis .
      qed
      ultimately show ?thesis by blast
    qed
  qed
qed

lemma superset_rules_set:
  "set (superset_rules rs basket) = {r \<in> set rs. set basket \<subseteq> set (antecedents r)}"
  by (auto simp: superset_rules_def)

lemma intersecting_rules_set:
  "set (intersecting_rules rs basket) = {r \<in> set rs. set basket \<inter> set (antecedents r) \<noteq> {}}"
  by (auto simp: intersecting_rules_def card_gt_0_iff)

text \<open>
  Claim C4. For a fitted model whose rules have non-empty consequents, the basket query
  returns normally; its candidates are the rules whose antecedent is a superset of the
  basket or, only when there is no such rule, the rules whose antecedent intersects the
  basket; the products returned are the first occurrences, in sorted rule order, of the
  consequent products that are not in the basket, cut off once \<open>top_n\<close> are collected. So no
  returned product is in the basket and none is returned twice.
\<close>

theorem get_basket_recommendations_spec:
  assumes fitted: "rules self = Some rs"
    and nonempty: "\<forall>r \<in> set rs. consequents r \<noteq> []"
  shows "\<exists>recs. get_basket_recommendations self basket top_n = Inr recs
     \<and> set (map r_product recs) \<inter> set basket = {}
     \<and> distinct (map r_product recs)
     \<and> map r_product recs =
         take (max 1 (nat top_n))
           (first_occurrences
              (filter (\<lambda>c. c \<notin> set basket)
                 (map (\<lambda>r. hd (consequents r))
                    (sort_values_desc
                       (if superset_rules rs basket \<noteq> [] then superset_rules rs basket
                        else intersecting_rules rs basket)))))
     \<and> set (superset_rules rs basket) = {r \<in> set rs. set basket \<subseteq> set (antecedents r)}
     \<and> set (intersecting_rules rs basket) =
         {r \<in> set rs. set basket \<inter> set (antecedents r) \<noteq> {}}"
proof -
  let ?sel = "if superset_rules rs basket \<noteq> [] then superset_rules rs basket
              else intersecting_rules rs basket"
  let ?kept = "first_occurrences (filter (\<lambda>c. c \<notin> set basket)
                 (map (\<lambda>r. hd (consequents r)) (sort_values_desc ?sel)))"
  have sub: "set ?sel \<subseteq> set rs"
    by (auto simp: superset_rules_def intersecting_rules_def)
  then have ne: "\<forall>r \<in> set (sort_values_desc ?sel). consequents r \<noteq> []"
    using nonempty by (auto simp: set_sort_values_desc)
  from basket_loop_eq [OF ne, of basket top_n "[]" "set basket"] obtain new where
    new: "basket_loop basket top_n (sort_values_desc ?sel) [] (set basket) = Inr new"
      "map r_product new = take (max 1 (nat top_n)) ?kept"
    by auto
  have res: "\<exists>recs. get_basket_recommendations self basket top_n = Inr recs
               \<and> map r_product recs = take (max 1 (nat top_n)) ?kept"
  proof (cases "?sel = []")
    case True
    then have "get_basket_recommendations self basket top_n = Inr []"
      by (auto simp: get_basket_recommendations_def fitted Let_def split: if_splits)
    moreover from True have "?kept = []" by (simp add: sort_values_desc_def)
    ultimately show ?thesis by simp
  next
    case False
    then have "rs \<noteq> []" using sub by auto
    with False have "get_basket_recommendations self basket top_n
        = basket_loop basket top_n (sort_values_desc ?sel) [] (set basket)"
      by (auto simp: get_basket_recommendations_def fitted Let_def)
    with new show ?thesis by simp
  qed
  then obtain recs where recs: "get_basket_recommendations self basket top_n = Inr recs"
    "map r_product recs = take (max 1 (nat top_n)) ?kept" by blast
  have "set (take (max 1 (nat top_n)) ?kept) \<subseteq> set ?kept" by (rule set_take_subset)
  then have disj: "set (map r_product recs) \<inter> set basket = {}"
    unfolding recs(2) set_first_occurrences by auto
  have dist: "distinct (map r_product recs)"
    unfolding recs(2) by (intro distinct_take distinct_first_occurrences)
  show ?thesis
    using recs disj dist superset_rules_set intersecting_rules_set by blast
qed

theorem get_basket_recommendations_spec_witness:
  "rules
      \<lparr>min_support = 0.01, min_confidence = 0.1, frequent_itemsets = None,
        rules = Some
        [\<lparr>antecedents = [''Hoodie''], consequents = [''Sneakers''],
            support = 0.2, confidence = 0.5, lift = 1.2\<rparr>,
         \<lparr>antecedents = [''Hoodie''], consequents = [''Backpack''],
            support = 0.3, confidence = 0.8, lift = 1.5\<rparr>,
         \<lparr>antecedents = [''Sneakers''], consequents = [''Hoodie''],
            support = 0.2, confidence = 0.9, lift = 1.2\<rparr>,
         \<lparr>antecedents = [''Hoodie'', ''Backpack''], consequents = [''Sneakers''],
            support = 0.1, confidence = 0.6, lift = 1.1\<rparr>]\<rparr> =
    Some
        [\<lparr>antecedents = [''Hoodie''], consequents = [''Sneakers''],
            support = 0.2, confidence = 0.5, lift = 1.2\<rparr>,
         \<lparr>antecedents = [''Hoodie''], consequents = [''Backpack''],
            support = 0.3, confidence = 0.8, lift = 1.5\<rparr>,
         \<lparr>antecedents = [''Sneakers''], consequents = [''Hoodie''],
            support = 0.2, confidence = 0.9, lift = 1.2\<rparr>,
         \<lparr>antecedents = [''Hoodie'', ''Backpack''], consequents = [''Sneakers''],
            support = 0.1, confidence = 0.6, lift = 1.1\<rparr>]
   \<and> list_all (\<lambda>r. consequents r \<noteq> [])
        [\<lparr>antecedents = [''Hoodie''], consequents = [''Sneakers''],
            support = 0.2, confidence = 0.5, lift = 1.2\<rparr>,
         \<lparr>antecedents = [''Hoodie''], consequents = [''Backpack''],
            support = 0.3, confidence = 0.8, lift = 1.5\<rparr>,
         \<lparr>antecedents = [''Sneakers''], consequents = [''Hoodie''],
            support = 0.2, confidence = 0.9, lift = 1.2\<rparr>,
         \<lparr>antecedents = [''Hoodie'', ''Backpack''], consequents = [''Sneakers''],
            support = 0.1, confidence = 0.6, lift = 1.1\<rparr>]
   \<and> (\<exists>recs. get_basket_recommendations
      \<lparr>min_support = 0.01, min_confidence = 0.1, frequent_itemsets = None,
        rules = Some
        [\<lparr>antecedents = [''Hoodie''], consequents = [''Sneakers''],
            support = 0.2, confidence = 0.5, lift = 1.2\<rparr>,
         \<lparr>antecedents = [''Hoodie''], consequents = [''Backpack''],
            support = 0.3, confidence = 0.8, lift = 1.5\<rparr>,
         \<lparr>antecedents = [''Sneakers''], consequents = [''Hoodie''],
            support = 0.2, confidence = 0.9, lift = 1.2\<rparr>,
         \<lparr>antecedents = [''Hoodie'', ''Backpack''], consequents = [''Sneakers''],
            support = 0.1, confidence = 0.6, lift = 1.1\<rparr>]\<rparr>
      [''Hoodie''] 5 = Inr recs
      \<and> map r_product recs = [''Backpack'', ''Sneakers'']
      \<and> set (map r_product recs) \<inter> set [''Hoodie''] = {}
      \<and> distinct (map r_product recs))"
  (is "rules ?m = Some ?rs \<and> _ \<and> _")
proof -
  have fitted: "rules ?m = Some ?rs" by simp
  have nonempty: "\<forall>r \<in> set ?rs. consequents r \<noteq> []" by simp
  have eval: "map r_product (projr (get_basket_recommendations ?m [''Hoodie''] 5))
            = [''Backpack'', ''Sneakers'']"
    by (simp add: query_eval)
  from get_basket_recommendations_spec [OF fitted nonempty, of "[''Hoodie'']" 5]
  obtain recs where recs: "get_basket_recommendations ?m [''Hoodie''] 5 = Inr recs"
    "set (map r_product recs) \<inter> set [''Hoodie''] = {}" "distinct (map r_product recs)"
    by blast
  from eval recs(1) have prods: "map r_product recs = [''Backpack'', ''Sneakers'']" by simp
  show ?thesis
  proof (intro conjI exI [of _ recs])
    show "rules ?m = Some ?rs" by (rule fitted)
    show "list_all (\<lambda>r. consequents r \<noteq> []) ?rs" by simp
    show "get_basket_recommendations ?m [''Hoodie''] 5 = Inr recs" by (rule recs(1))
    show "map r_product recs = [''Backpack'', ''Sneakers'']" by (rule prods)
    show "set (map r_product recs) \<inter> set [''Hoodie''] = {}" by (rule recs(2))
    show "distinct (map r_product recs)" by (rule recs(3))
  qed
qed

section \<open>Properties of collaborative filtering\<close>

text \<open>
  Claim C2, as amended. For a product absent from the fitted matrix the product-similarity
  query returns the empty list, and for a customer absent from the fitted matrix the
  user-recommendation query returns the empty list; neither raises.
\<close>

theorem unknown_labels_give_empty_results:
  "(product \<notin> set (products self) \<longrightarrow> get_product_similarity cosine self product top_n = Inr [])
   \<and> (user_id \<notin> set (ui_index (user_item_matrix self)) \<longrightarrow>
        get_user_recommendations self user_id top_n = Inr [])"
  by (simp add: get_product_similarity_def get_user_recommendations_def Let_def)

lemmas cf_eval = get_product_similarity_def get_user_recommendations_def cf_fit_def
  py_nth_def py_head_def dot_def enumerate_eq_zip Let_def

theorem unknown_labels_give_empty_results_witness:
  "''Smartwatch'' \<notin> set (products
        (cf_fit (\<lambda>n m. ([[1], [2]], [[1], [2], [3]])) 1
          \<lparr>ui_index = [7, 8], ui_columns = [''Hoodie'', ''Sneakers'', ''Scarf''],
           ui_values = [[1, 0, 0], [0, 2, 0]]\<rparr>))
   \<and> get_product_similarity (\<lambda>u v. dot u v / 10)
        (cf_fit (\<lambda>n m. ([[1], [2]], [[1], [2], [3]])) 1
          \<lparr>ui_index = [7, 8], ui_columns = [''Hoodie'', ''Sneakers'', ''Scarf''],
           ui_values = [[1, 0, 0], [0, 2, 0]]\<rparr>)
        ''Smartwatch'' 5 = Inr []
   \<and> 9 \<notin> set (ui_index (user_item_matrix
        (cf_fit (\<lambda>n m. ([[1], [2]], [[1], [2], [3]])) 1
          \<lparr>ui_index = [7, 8], ui_columns = [''Hoodie'', ''Sneakers'', ''Scarf''],
           ui_values = [[1, 0, 0], [0, 2, 0]]\<rparr>)))
   \<and> get_user_recommendations
        (cf_fit (\<lambda>n m. ([[1], [2]], [[1], [2], [3]])) 1
          \<lparr>ui_index = [7, 8], ui_columns = [''Hoodie'', ''Sneakers'', ''Scarf''],
           ui_values = [[1, 0, 0], [0, 2, 0]]\<rparr>)
        9 5 = Inr []"
  (is "_ \<notin> set (products ?cf) \<and> _")
proof -
  have p: "''Smartwatch'' \<notin> set (products ?cf)"
    and u: "9 \<notin> set (ui_index (user_item_matrix ?cf))"
    by (simp_all add: cf_fit_def)
  from unknown_labels_give_empty_results
    [of "''Smartwatch''" ?cf "\<lambda>u v. dot u v / 10" 5 9] p u
  show ?thesis by blast
qed

text \<open>
  The claim as stated fails: for a product, and for a customer, absent from the fitted
  matrix the two queries return normally, with the empty list, and raise nothing.
\<close>

theorem unknown_labels_raise_nothing:
  "''Smartwatch'' \<notin> set (products
        (cf_fit (\<lambda>n m. ([[1], [2]], [[1], [2], [3]])) 1
          \<lparr>ui_index = [7, 8], ui_columns = [''Hoodie'', ''Sneakers'', ''Scarf''],
           ui_values = [[1, 0, 0], [0, 2, 0]]\<rparr>))
   \<and> \<not> (\<exists>e. get_product_similarity (\<lambda>u v. dot u v / 10)
        (cf_fit (\<lambda>n m. ([[1], [2]], [[1], [2], [3]])) 1
          \<lparr>ui_index = [7, 8], ui_columns = [''Hoodie'', ''Sneakers'', ''Scarf''],
           ui_values = [[1, 0, 0], [0, 2, 0]]\<rparr>)
        ''Smartwatch'' 5 = Inl e)
   \<and> 9 \<notin> set (ui_index (user_item_matrix
        (cf_fit (\<lambda>n m. ([[1], [2]], [[1], [2], [3]])) 1
          \<lparr>ui_index = [7, 8], ui_columns = [''Hoodie'', ''Sneakers'', ''Scarf''],
           ui_values = [[1, 0, 0], [0, 2, 0]]\<rparr>)))
   \<and> \<not> (\<exists>e. get_user_recommendations
        (cf_fit (\<lambda>n m. ([[1], [2]], [[1], [2], [3]])) 1
          \<lparr>ui_index = [7, 8], ui_columns = [''Hoodie'', ''Sneakers'', ''Scarf''],
           ui_values = [[1, 0, 0], [0, 2, 0]]\<rparr>)
        9 5 = Inl e)"
  by (simp add: cf_eval)

lemma cf_known_product:
  "get_product_similarity (\<lambda>u v. dot u v / 10)
        (cf_fit (\<lambda>n m. ([[1], [2]], [[1], [2], [3]])) 1
          \<lparr>ui_index = [7, 8], ui_columns = [''Hoodie'', ''Sneakers'', ''Scarf''],
           ui_values = [[1, 0, 0], [0, 2, 0]]\<rparr>)
        ''Hoodie'' 4 =
   Inr [\<lparr>s_product = ''Scarf'', s_similarity = 0.3, s_explanation = Similar_to ''Hoodie''\<rparr>,
        \<lparr>s_product = ''Sneakers'', s_similarity = 0.2, s_explanation = Similar_to ''Hoodie''\<rparr>]"
  by (simp add: cf_eval)

text \<open>
  The similar products are distinct columns of the fitted matrix, the query product not
  among them.
\<close>

lemma similarities_loop_names:
  "similarities_loop cosine product pv factors js sims = Inr sims' \<Longrightarrow>
     map fst sims' = map fst sims @ filter (\<lambda>p. p \<noteq> product) (map snd js)"
proof (induction js arbitrary: sims)
  case Nil
  then show ?case by simp
next
  case (Cons j js)
  obtain i other where j: "j = (i, other)" by (cases j)
  show ?case
  proof (cases "other = product")
    case True
    with Cons j show ?thesis by simp
  next
    case False
    with Cons.prems j obtain ov where ov: "py_nth factors i = Inr ov"
      and rest: "similarities_loop cosine product pv factors js (sims @ [(other, cosine pv ov)])
                 = Inr sims'"
      by (auto split: sum.splits)
    from Cons.IH [OF rest] False j show ?thesis by simp
  qed
qed

lemma distinct_names_sort_key:
  "distinct (map fst (sort_key f xs)) = distinct (map fst xs)"
  by (simp add: distinct_map)

lemma py_head_map: "map f (py_head n xs) = py_head n (map f xs)"
  by (simp add: py_head_def take_map)

lemma distinct_py_head: "distinct xs \<Longrightarrow> distinct (py_head n xs)"
  by (simp add: py_head_def)

lemma set_py_head: "set (py_head n xs) \<subseteq> set xs"
  by (auto simp: py_head_def dest: in_set_takeD)

lemma get_product_similarity_names:
  assumes "distinct (products self)"
    and "get_product_similarity cosine self product top_n = Inr recs"
  shows "distinct (map s_product recs) \<and> product \<notin> set (map s_product recs)
       \<and> set (map s_product recs) \<subseteq> set (products self)"
proof (cases "product \<in> set (products self)")
  case False
  with assms(2) show ?thesis by (simp add: get_product_similarity_def)
next
  case True
  with assms(2) obtain pv sims where
    loop: "similarities_loop cosine product pv (item_factors self)
             (enumerate 0 (products self)) [] = Inr sims"
    and recs: "recs = map (\<lambda>(other_product, similarity).
                 \<lparr>s_product = other_product, s_similarity = similarity,
                  s_explanation = Similar_to product\<rparr>)
               (py_head top_n (sort_key (\<lambda>x. - snd x) sims))"
    by (auto simp: get_product_similarity_def split: sum.splits)
  from similarities_loop_names [OF loop]
  have names: "map fst sims = filter (\<lambda>p. p \<noteq> product) (products self)"
    by (simp add: enumerate_eq_zip)
  have out: "map s_product recs = py_head top_n (map fst (sort_key (\<lambda>x. - snd x) sims))"
    unfolding recs py_head_map [symmetric] by (simp add: case_prod_unfold comp_def)
  from assms(1) have d: "distinct (map fst (sort_key (\<lambda>x. - snd x) sims))"
    unfolding distinct_names_sort_key names by simp
  have s: "set (map fst (sort_key (\<lambda>x. - snd x) sims)) = set (map fst sims)"
    by simp
  have sub: "set (map s_product recs) \<subseteq> set (map fst sims)"
    unfolding out using set_py_head [of top_n "map fst (sort_key (\<lambda>x. - snd x) sims)"] s
    by simp
  show ?thesis
    using distinct_py_head [OF d, of top_n] sub unfolding out names by auto
qed

section \<open>Properties of the hybrid recommender\<close>

lemma find_append:
  "find P (xs @ ys) = (case find P xs of None \<Rightarrow> find P ys | Some x \<Rightarrow> Some x)"
  by (induction xs) auto

lemma fold_add_mba:
  assumes "distinct (map fst d)"
  shows "distinct (map fst (fold (add_mba_score w) recs d))
       \<and> fst ` set (fold (add_mba_score w) recs d) = fst ` set d \<union> r_product ` set recs
       \<and> map_of (fold (add_mba_score w) recs d) p =
           (case find (\<lambda>r. r_product r = p) (rev recs) of
              Some r \<Rightarrow> Some \<lparr>h_product = r_product r, h_score = r_confidence r * w,
                          h_mba_confidence = Some (r_confidence r), h_cf_similarity = None,
                          h_explanation = r_explanation r\<rparr>
            | None \<Rightarrow> map_of d p)"
  using assms
proof (induction recs arbitrary: d)
  case Nil
  then show ?case by simp
next
  case (Cons r recs)
  let ?d = "add_mba_score w r d"
  have d: "distinct (map fst ?d)"
    using Cons.prems by (simp add: add_mba_score_def distinct_update)
  have keys: "fst ` set ?d = insert (r_product r) (fst ` set d)"
    by (simp add: add_mba_score_def dom_update)
  have look: "map_of ?d = (map_of d)(r_product r \<mapsto>
      \<lparr>h_product = r_product r, h_score = r_confidence r * w,
       h_mba_confidence = Some (r_confidence r), h_cf_similarity = None,
       h_explanation = r_explanation r\<rparr>)"
    by (simp add: add_mba_score_def update_conv')
  from Cons.IH [OF d] show ?case
    by (auto simp: keys look find_append split: option.splits)
qed

lemma fold_add_cf:
  assumes "distinct (map fst d)" and "distinct (map s_product recs)"
  shows "distinct (map fst (fold (add_cf_score w) recs d))
       \<and> fst ` set (fold (add_cf_score w) recs d) = fst ` set d \<union> s_product ` set recs
       \<and> map_of (fold (add_cf_score w) recs d) p =
           (case find (\<lambda>r. s_product r = p) recs of
              Some r \<Rightarrow>
                Some (case map_of d p of
                        None \<Rightarrow> \<lparr>h_product = s_product r, h_score = s_similarity r * w,
                                 h_mba_confidence = None,
                                 h_cf_similarity = Some (s_similarity r),
                                 h_explanation = s_explanation r\<rparr>
                      | Some h \<Rightarrow> h\<lparr>h_score := h_score h + s_similarity r * w,
                                    h_cf_similarity := Some (s_similarity r)\<rparr>)
            | None \<Rightarrow> map_of d p)"
  using assms
proof (induction recs arbitrary: d)
  case Nil
  then show ?case by simp
next
  case (Cons r recs)
  let ?d = "add_cf_score w r d"
  have d: "distinct (map fst ?d)"
    using Cons.prems(1) by (simp add: add_cf_score_def Let_def distinct_map_default)
  have keys: "fst ` set ?d = insert (s_product r) (fst ` set d)"
    by (simp add: add_cf_score_def Let_def dom_map_default)
  have look: "map_of ?d = (map_of d)(s_product r :=
      (case map_of d (s_product r) of
         None \<Rightarrow> Some \<lparr>h_product = s_product r, h_score = s_similarity r * w,
                       h_mba_confidence = None, h_cf_similarity = Some (s_similarity r),
                       h_explanation = s_explanation r\<rparr>
       | Some h \<Rightarrow> Some (h\<lparr>h_score := h_score h + s_similarity r * w,
                            h_cf_similarity := Some (s_similarity r)\<rparr>)))"
    by (simp add: add_cf_score_def Let_def map_of_map_default)
  from Cons.prems(2) have rest: "distinct (map s_product recs)"
    and fresh: "s_product r \<notin> s_product ` set recs" by auto
  from fresh have none: "find (\<lambda>r'. s_product r' = s_product r) recs = None"
    by (force simp: find_None_iff image_iff)
  note IH = Cons.IH [OF d rest]
  show ?case
  proof (cases "s_product r = p")
    case True
    with IH none show ?thesis
      by (auto simp: keys look split: option.splits)
  next
    case False
    with IH show ?thesis
      by (auto simp: keys look split: option.splits)
  qed
qed

lemma combine_scores_lookup:
  assumes cf_distinct: "distinct (map s_product cf_recs)"
    and kh: "(k, h) \<in> set (combine_scores w_mba w_cf mba_recs cf_recs)"
  shows "h_product h = k
       \<and> h_mba_confidence h =
           map_option r_confidence (find (\<lambda>r. r_product r = k) (rev mba_recs))
       \<and> h_cf_similarity h = map_option s_similarity (find (\<lambda>r. s_product r = k) cf_recs)
       \<and> h_score h = blended_score w_mba w_cf (h_mba_confidence h) (h_cf_similarity h)"
proof -
  let ?d1 = "fold (add_mba_score w_mba) mba_recs []"
  let ?d2 = "fold (add_cf_score w_cf) cf_recs ?d1"
  have d1: "distinct (map fst ?d1)"
    using fold_add_mba [of "[]" w_mba mba_recs] by simp
  have d2: "distinct (map fst ?d2)"
    using fold_add_cf [OF d1 cf_distinct] by simp
  from kh d2 have look2: "map_of ?d2 k = Some h"
    by (simp add: combine_scores_def)
  have look1: "map_of ?d1 k =
           (case find (\<lambda>r. r_product r = k) (rev mba_recs) of
              Some r \<Rightarrow> Some \<lparr>h_product = r_product r, h_score = r_confidence r * w_mba,
                          h_mba_confidence = Some (r_confidence r), h_cf_similarity = None,
                          h_explanation = r_explanation r\<rparr>
            | None \<Rightarrow> None)"
    using fold_add_mba [of "[]" w_mba mba_recs k] by (simp cong: option.case_cong)
  from fold_add_cf [OF d1 cf_distinct, of w_cf k] look2
  have eq: "Some h = (case find (\<lambda>r. s_product r = k) cf_recs of
              Some r \<Rightarrow>
                Some (case map_of ?d1 k of
                        None \<Rightarrow> \<lparr>h_product = s_product r, h_score = s_similarity r * w_cf,
                                 h_mba_confidence = None,
                                 h_cf_similarity = Some (s_similarity r),
                                 h_explanation = s_explanation r\<rparr>
                      | Some h \<Rightarrow> h\<lparr>h_score := h_score h + s_similarity r * w_cf,
                                    h_cf_similarity := Some (s_similarity r)\<rparr>)
            | None \<Rightarrow> map_of ?d1 k)"
    by simp
  show ?thesis
  proof (cases "find (\<lambda>r. r_product r = k) (rev mba_recs)")
    case no_mba: None
    show ?thesis
    proof (cases "find (\<lambda>r. s_product r = k) cf_recs")
      case None
      with eq look1 no_mba show ?thesis by simp
    next
      case (Some c)
      then have ck: "s_product c = k" by (auto simp: find_Some_iff)
      from eq look1 no_mba Some have "h = \<lparr>h_product = s_product c,
          h_score = s_similarity c * w_cf, h_mba_confidence = None,
          h_cf_similarity = Some (s_similarity c), h_explanation = s_explanation c\<rparr>"
        by simp
      then show ?thesis
        by (simp add: ck no_mba Some blended_score_def mult.commute)
    qed
  next
    case (Some m)
    then have mk: "r_product m = k" by (auto simp: find_Some_iff)
    note has_mba = Some
    show ?thesis
    proof (cases "find (\<lambda>r. s_product r = k) cf_recs")
      case None
      from eq look1 has_mba None have "h = \<lparr>h_product = r_product m,
          h_score = r_confidence m * w_mba, h_mba_confidence = Some (r_confidence m),
          h_cf_similarity = None, h_explanation = r_explanation m\<rparr>"
        by simp
      then show ?thesis
        by (simp add: mk has_mba None blended_score_def mult.commute)
    next
      case (Some c)
      from eq look1 has_mba Some have "h = \<lparr>h_product = r_product m,
          h_score = r_confidence m * w_mba + s_similarity c * w_cf,
          h_mba_confidence = Some (r_confidence m),
          h_cf_similarity = Some (s_similarity c), h_explanation = r_explanation m\<rparr>"
        by simp
      then show ?thesis
        by (simp add: mk has_mba Some blended_score_def mult.commute)
    qed
  qed
qed

lemma combine_scores_entries:
  assumes cf_distinct: "distinct (map s_product cf_recs)"
    and h: "h \<in> set (map snd (combine_scores w_mba w_cf mba_recs cf_recs))"
  shows "h_mba_confidence h =
           map_option r_confidence (find (\<lambda>r. r_product r = h_product h) (rev mba_recs))
       \<and> h_cf_similarity h =
           map_option s_similarity (find (\<lambda>r. s_product r = h_product h) cf_recs)
       \<and> h_score h = blended_score w_mba w_cf (h_mba_confidence h) (h_cf_similarity h)"
proof -
  from h obtain k where "(k, h) \<in> set (combine_scores w_mba w_cf mba_recs cf_recs)"
    by auto
  from combine_scores_lookup [OF cf_distinct this] show ?thesis by metis
qed

lemma combine_scores_keys:
  assumes "distinct (map s_product cf_recs)"
  shows "distinct (map h_product (map snd (combine_scores w_mba w_cf mba_recs cf_recs)))
       \<and> set (map h_product (map snd (combine_scores w_mba w_cf mba_recs cf_recs)))
           = r_product ` set mba_recs \<union> s_product ` set cf_recs"
proof -
  let ?d1 = "fold (add_mba_score w_mba) mba_recs []"
  let ?d2 = "fold (add_cf_score w_cf) cf_recs ?d1"
  have d1: "distinct (map fst ?d1)" "fst ` set ?d1 = r_product ` set mba_recs"
    using fold_add_mba [of "[]" w_mba mba_recs] by simp_all
  have d2: "distinct (map fst ?d2)"
    "fst ` set ?d2 = r_product ` set mba_recs \<union> s_product ` set cf_recs"
    using fold_add_cf [OF d1(1) assms, of w_cf] d1(2) by simp_all
  have "h_product h = k" if "(k, h) \<in> set ?d2" for k h
    using combine_scores_lookup [OF assms, of k h w_mba w_cf mba_recs] that
    by (simp add: combine_scores_def)
  then have m: "map h_product (map snd ?d2) = map fst ?d2"
    by auto
  show ?thesis
    unfolding combine_scores_def m set_map using d2 by blast
qed

lemma sorted_by_score_desc:
  "sorted_wrt (\<lambda>a b. h_score a \<ge> h_score b) (py_head n (sort_key (\<lambda>h. - h_score h) hs))"
proof -
  have "sorted (map (\<lambda>h. - h_score h) (sort_key (\<lambda>h. - h_score h) hs))"
    by (rule sorted_sort_key)
  then have "sorted_wrt (\<lambda>a b. h_score a \<ge> h_score b) (sort_key (\<lambda>h. - h_score h) hs)"
    by (simp add: sorted_wrt_map)
  then show ?thesis
    unfolding py_head_def by (simp add: sorted_wrt_take)
qed

text \<open>
  Claim C7. When the two sub-models, asked for \<open>2 * top_n\<close> candidates, return their lists
  (the products of the fitted matrix being distinct), the hybrid query returns the merged
  entries sorted by combined score descending and cut to \<open>top_n\<close>. There is one merged entry per product
  of either list; its confidence is that of the product's last market-basket entry, its
  similarity that of its collaborative-filtering entry, and its score is the weighted
  confidence plus the weighted similarity, a product of one list only keeping its single
  term. A product of both lists scores exactly the weighted sum of its two sub-scores.
\<close>

theorem hybrid_recommendations_blend:
  assumes mba_out: "get_recommendations (mba self) product (top_n * 2) = Inr mba_recs"
    and cf_out: "get_product_similarity cosine (cf self) product (top_n * 2) = Inr cf_recs"
    and columns: "distinct (products (cf self))"
  shows "hybrid_get_recommendations cosine self product top_n =
          Inr (py_head top_n (sort_key (\<lambda>h. - h_score h)
                 (map snd (combine_scores (mba_weight self) (cf_weight self) mba_recs cf_recs))))
     \<and> sorted_wrt (\<lambda>a b. h_score a \<ge> h_score b)
          (py_head top_n (sort_key (\<lambda>h. - h_score h)
             (map snd (combine_scores (mba_weight self) (cf_weight self) mba_recs cf_recs))))
     \<and> distinct (map h_product
          (map snd (combine_scores (mba_weight self) (cf_weight self) mba_recs cf_recs)))
     \<and> set (map h_product
          (map snd (combine_scores (mba_weight self) (cf_weight self) mba_recs cf_recs)))
         = r_product ` set mba_recs \<union> s_product ` set cf_recs
     \<and> (\<forall>h \<in> set (map snd (combine_scores (mba_weight self) (cf_weight self) mba_recs cf_recs)).
            h_mba_confidence h =
              map_option r_confidence (find (\<lambda>r. r_product r = h_product h) (rev mba_recs))
          \<and> h_cf_similarity h =
              map_option s_similarity (find (\<lambda>r. s_product r = h_product h) cf_recs)
          \<and> h_score h = blended_score (mba_weight self) (cf_weight self)
                           (h_mba_confidence h) (h_cf_similarity h)
          \<and> (\<forall>c s. h_mba_confidence h = Some c \<and> h_cf_similarity h = Some s \<longrightarrow>
                 h_score h = mba_weight self * c + cf_weight self * s))"
proof (intro conjI ballI)
  let ?merged = "map snd (combine_scores (mba_weight self) (cf_weight self) mba_recs cf_recs)"
  from get_product_similarity_names [OF columns cf_out]
  have cf_distinct: "distinct (map s_product cf_recs)" by (rule conjunct1)
  show "hybrid_get_recommendations cosine self product top_n =
          Inr (py_head top_n (sort_key (\<lambda>h. - h_score h) ?merged))"
    by (simp add: hybrid_get_recommendations_def mba_out cf_out Let_def)
  show "sorted_wrt (\<lambda>a b. h_score a \<ge> h_score b)
          (py_head top_n (sort_key (\<lambda>h. - h_score h) ?merged))"
    by (rule sorted_by_score_desc)
  show "distinct (map h_product ?merged)"
    using combine_scores_keys [OF cf_distinct] by blast
  show "set (map h_product ?merged) = r_product ` set mba_recs \<union> s_product ` set cf_recs"
    using combine_scores_keys [OF cf_distinct] by blast
  fix h assume h: "h \<in> set ?merged"
  note e = combine_scores_entries [OF cf_distinct h]
  from e show "h_mba_confidence h =
      map_option r_confidence (find (\<lambda>r. r_product r = h_product h) (rev mba_recs))"
    by (rule conjunct1)
  from e show "h_cf_similarity h =
      map_option s_similarity (find (\<lambda>r. s_product r = h_product h) cf_recs)"
    by (rule conjunct1 [OF conjunct2])
  from e show sc: "h_score h = blended_score (mba_weight self) (cf_weight self)
                           (h_mba_confidence h) (h_cf_similarity h)"
    by (rule conjunct2 [OF conjunct2])
  show "\<forall>c s. h_mba_confidence h = Some c \<and> h_cf_similarity h = Some s \<longrightarrow>
                 h_score h = mba_weight self * c + cf_weight self * s"
    unfolding sc by (simp add: blended_score_def)
qed

lemma mba_known_product:
  "get_recommendations
      \<lparr>min_support = 0.01, min_confidence = 0.1, frequent_itemsets = None,
        rules = Some
        [\<lparr>antecedents = [''Hoodie''], consequents = [''Sneakers''],
            support = 0.2, confidence = 0.5, lift = 1.2\<rparr>,
         \<lparr>antecedents = [''Hoodie''], consequents = [''Backpack''],
            support = 0.3, confidence = 0.8, lift = 1.5\<rparr>,
         \<lparr>antecedents = [''Sneakers''], consequents = [''Hoodie''],
            support = 0.2, confidence = 0.9, lift = 1.2\<rparr>,
         \<lparr>antecedents = [''Hoodie'', ''Backpack''], consequents = [''Sneakers''],
            support = 0.1, confidence = 0.6, lift = 1.1\<rparr>]\<rparr>
      ''Hoodie'' 4 =
    Inr [\<lparr>r_product = ''Backpack'', r_confidence = 0.8, r_lift = 1.5, r_support = 0.3,
           r_explanation = Also_bought 0.8 [''Hoodie''] ''Backpack''\<rparr>,
         \<lparr>r_product = ''Sneakers'', r_confidence = 0.6, r_lift = 1.1, r_support = 0.1,
           r_explanation = Also_bought 0.6 [''Hoodie''] ''Sneakers''\<rparr>,
         \<lparr>r_product = ''Sneakers'', r_confidence = 0.5, r_lift = 1.2, r_support = 0.2,
           r_explanation = Also_bought 0.5 [''Hoodie''] ''Sneakers''\<rparr>]"
  by (simp add: query_eval)

theorem hybrid_recommendations_blend_witness:
  "hybrid_get_recommendations (\<lambda>u v. dot u v / 10)
     \<lparr>mba_weight = 0.6, cf_weight = 0.4,
      mba = \<lparr>min_support = 0.01, min_confidence = 0.1, frequent_itemsets = None,
        rules = Some
        [\<lparr>antecedents = [''Hoodie''], consequents = [''Sneakers''],
            support = 0.2, confidence = 0.5, lift = 1.2\<rparr>,
         \<lparr>antecedents = [''Hoodie''], consequents = [''Backpack''],
            support = 0.3, confidence = 0.8, lift = 1.5\<rparr>,
         \<lparr>antecedents = [''Sneakers''], consequents = [''Hoodie''],
            support = 0.2, confidence = 0.9, lift = 1.2\<rparr>,
         \<lparr>antecedents = [''Hoodie'', ''Backpack''], consequents = [''Sneakers''],
            support = 0.1, confidence = 0.6, lift = 1.1\<rparr>]\<rparr>,
      cf = (cf_fit (\<lambda>n m. ([[1], [2]], [[1], [2], [3]])) 1
          \<lparr>ui_index = [7, 8], ui_columns = [''Hoodie'', ''Sneakers'', ''Scarf''],
           ui_values = [[1, 0, 0], [0, 2, 0]]\<rparr>)\<rparr>
     ''Hoodie'' 2 =
   Inr [\<lparr>h_product = ''Backpack'', h_score = 0.48, h_mba_confidence = Some 0.8,
          h_cf_similarity = None,
          h_explanation = Also_bought 0.8 [''Hoodie''] ''Backpack''\<rparr>,
        \<lparr>h_product = ''Sneakers'', h_score = 0.38, h_mba_confidence = Some 0.5,
          h_cf_similarity = Some 0.2,
          h_explanation = Also_bought 0.5 [''Hoodie''] ''Sneakers''\<rparr>]
   \<and> (0.38 :: real) = 0.6 * 0.5 + 0.4 * 0.2"
  (is "hybrid_get_recommendations ?cos ?h _ _ = Inr [?backpack, ?sneakers] \<and> _")
proof -
  have mba_out: "get_recommendations (mba ?h) ''Hoodie'' (2 * 2) =
    Inr [\<lparr>r_product = ''Backpack'', r_confidence = 0.8, r_lift = 1.5, r_support = 0.3,
           r_explanation = Also_bought 0.8 [''Hoodie''] ''Backpack''\<rparr>,
         \<lparr>r_product = ''Sneakers'', r_confidence = 0.6, r_lift = 1.1, r_support = 0.1,
           r_explanation = Also_bought 0.6 [''Hoodie''] ''Sneakers''\<rparr>,
         \<lparr>r_product = ''Sneakers'', r_confidence = 0.5, r_lift = 1.2, r_support = 0.2,
           r_explanation = Also_bought 0.5 [''Hoodie''] ''Sneakers''\<rparr>]"
    (is "_ = Inr ?mba_recs")
    using mba_known_product by simp
  have cf_out: "get_product_similarity ?cos (cf ?h) ''Hoodie'' (2 * 2) =
    Inr [\<lparr>s_product = ''Scarf'', s_similarity = 0.3, s_explanation = Similar_to ''Hoodie''\<rparr>,
         \<lparr>s_product = ''Sneakers'', s_similarity = 0.2,
           s_explanation = Similar_to ''Hoodie''\<rparr>]"
    (is "_ = Inr ?cf_recs")
    using cf_known_product by simp
  have columns: "distinct (products (cf ?h))" by (simp add: cf_fit_def)
  have result: "hybrid_get_recommendations ?cos ?h ''Hoodie'' 2 = Inr [?backpack, ?sneakers]"
    unfolding hybrid_get_recommendations_def mba_out cf_out
    by (simp add: combine_scores_def add_mba_score_def add_cf_score_def py_head_def Let_def)
  have member: "?sneakers \<in> set (map snd (combine_scores (mba_weight ?h) (cf_weight ?h)
      ?mba_recs ?cf_recs))"
    by (simp add: combine_scores_def add_mba_score_def add_cf_score_def Let_def)
  note blend = hybrid_recommendations_blend [OF mba_out cf_out columns]
  note entry = bspec [OF blend [THEN conjunct2, THEN conjunct2, THEN conjunct2, THEN conjunct2]
      member]
  from entry have "\<forall>c s. h_mba_confidence ?sneakers = Some c \<and> h_cf_similarity ?sneakers = Some s
      \<longrightarrow> h_score ?sneakers = mba_weight ?h * c + cf_weight ?h * s"
    by (rule conjunct2 [OF conjunct2 [OF conjunct2]])
  then have "h_score ?sneakers = mba_weight ?h * 0.5 + cf_weight ?h * 0.2"
    by simp
  then have "(0.38 :: real) = 0.6 * 0.5 + 0.4 * 0.2" by simp
  with result show ?thesis by (rule conjI)
qed

section \<open>Properties of the key performance indicators\<close>

lemma get_kpis_frame:
  "snd (get_kpis df) = df\<lparr>fr_Price := Some (map (\<lambda>r. price_mapping (Product r)) (fr_rows df))\<rparr>"
  by (simp add: get_kpis_def Let_def)

text \<open>
  Claim C8 says that every insights query leaves the transaction dataset unchanged. On a
  one-row dataset \<open>get_kpis\<close> returns the indicators and leaves the shared frame with a
  \<open>Price\<close> column that it did not have before.
\<close>

theorem get_kpis_writes_price_column:
  "get_kpis \<lparr>fr_rows = [\<lparr>CustomerID = 1, Product = ''Hoodie'', Date = 0\<rparr>], fr_Price = None\<rparr> =
     (Inr \<lparr>total_transactions = 1, unique_customers = 1, unique_products = 1,
           avg_basket_size = 1, total_revenue = 45, avg_order_value = 45,
           date_range = (0, 0)\<rparr>,
      \<lparr>fr_rows = [\<lparr>CustomerID = 1, Product = ''Hoodie'', Date = 0\<rparr>],
       fr_Price = Some [Some 45]\<rparr>)
   \<and> snd (get_kpis
         \<lparr>fr_rows = [\<lparr>CustomerID = 1, Product = ''Hoodie'', Date = 0\<rparr>], fr_Price = None\<rparr>)
       \<noteq> \<lparr>fr_rows = [\<lparr>CustomerID = 1, Product = ''Hoodie'', Date = 0\<rparr>], fr_Price = None\<rparr>"
  by (simp add: get_kpis_def Let_def price_mapping_def groupby_baskets_def group_keys_def
      round2_def)

end
